theory Spec2Isabelle
  imports Complex_Main "HOL-Library.Multiset"
begin

section \<open>Order analytics of the admin console (src/pages/Analytics.tsx)\<close>

text \<open>
  The theory embeds the body of \<^verbatim>\<open>fetchAnalytics\<close> (Analytics.tsx, lines 44-138): the
  time window filter, the totals, the top-products ranking, the revenue-by-category join,
  the sales-over-time series and the status histogram.

  Conventions of the embedding.
  \<^item> A JavaScript number is a rational: the value of a finite double. Where the loops
    add and multiply amounts, the exact result is rounded by \<open>roundNumber\<close>, the rounding of
    the runtime to the nearest double. NaN and the infinities are not modelled, except
    where the code could produce them from well-typed input (a division, the time value
    of an unreadable date string): there the result is an \<open>option\<close>, \<open>None\<close> standing for
    the value that is not a finite number. The totals of lines 68-70 are stated on the
    exact sum. Counters that start at 0 and only grow by 1 are \<open>nat\<close>.
  \<^item> An instant (the time value of a \<^verbatim>\<open>Date\<close>) is an \<open>int\<close>: milliseconds since the epoch.
  \<^item> A field the code guards (\<^verbatim>\<open>order.totalAmount || 0\<close>, \<^verbatim>\<open>order.status || 'Unknown'\<close>,
    \<^verbatim>\<open>order.products?.forEach\<close>, \<^verbatim>\<open>order.createdAt?.toDate?.()\<close>) is an \<open>option\<close>; the other
    fields have the types the interfaces \<^verbatim>\<open>Order\<close>, \<^verbatim>\<open>Product\<close> and \<^verbatim>\<open>Category\<close> of the
    repository declare.
  \<^item> An object used as a dictionary (\<^verbatim>\<open>productSales\<close>, \<^verbatim>\<open>categoryRevenue\<close>, \<^verbatim>\<open>salesByDate\<close>,
    \<^verbatim>\<open>statusCount\<close>) is the association list of its own properties, in the order of their
    creation. It is created by \<^verbatim>\<open>{}\<close>, so a read of a name that \<^verbatim>\<open>Object.prototype\<close>
    defines finds the inherited value when the object has no own property of that name,
    and a write to \<^verbatim>\<open>__proto__\<close> creates no property.
  \<^item> The clock, the time zone, the locale and the rounding are inputs: \<open>now\<close> is the instant
    \<^verbatim>\<open>new Date()\<close> returns, and the record \<open>runtime\<close> holds the functions of the JavaScript
    runtime that the code calls.
\<close>

subsection \<open>Data model\<close>

text \<open>An entry of \<^verbatim>\<open>order.products\<close>: \<^verbatim>\<open>{ productId, name, price, quantity }\<close>.\<close>

record line_item =
  productId :: string
  item_name :: string
  price :: rat
  quantity :: rat

text \<open>
  An order document. \<open>createdAt\<close> is the time value of \<^verbatim>\<open>order.createdAt.toDate()\<close>, and
  \<open>None\<close> when the field is missing or has no \<^verbatim>\<open>toDate\<close> method.
\<close>

record order =
  order_id :: string
  createdAt :: "int option"
  totalAmount :: "rat option"
  status :: "string option"
  products :: "line_item list option"

record product =
  product_id :: string
  categoryId :: string

record category =
  category_id :: string
  category_name :: string

subsection \<open>The runtime\<close>

text \<open>
  The functions of the JavaScript runtime that the code depends on, as parameters.
  \<^item> \<open>toLocaleDateString rt t\<close> is \<^verbatim>\<open>new Date(t).toLocaleDateString()\<close> in the viewer's locale
    and time zone.
  \<^item> \<open>parseDate rt s\<close> is \<^verbatim>\<open>new Date(s).getTime()\<close>, with \<open>None\<close> for NaN.
  \<^item> \<open>localTime rt t\<close> is the local time value of the instant \<open>t\<close> (LocalTime of ECMAScript)
    and \<open>utcOfLocal rt t\<close> is the instant of the local time value \<open>t\<close> (UTC of ECMAScript).
  \<^item> \<open>roundNumber rt x\<close> is the double nearest to the exact result \<open>x\<close> of an arithmetic
    operation.
\<close>

record runtime =
  toLocaleDateString :: "int \<Rightarrow> string"
  parseDate :: "string \<Rightarrow> int option"
  localTime :: "int \<Rightarrow> int"
  utcOfLocal :: "int \<Rightarrow> int"
  roundNumber :: "rat \<Rightarrow> rat"

text \<open>The operators \<^verbatim>\<open>+\<close>, \<^verbatim>\<open>*\<close> and \<^verbatim>\<open>-\<close> on numbers.\<close>

definition num_add :: "runtime \<Rightarrow> rat \<Rightarrow> rat \<Rightarrow> rat" where
  "num_add rt a b = roundNumber rt (a + b)"

definition num_mul :: "runtime \<Rightarrow> rat \<Rightarrow> rat \<Rightarrow> rat" where
  "num_mul rt a b = roundNumber rt (a * b)"

definition num_sub :: "runtime \<Rightarrow> rat \<Rightarrow> rat \<Rightarrow> rat" where
  "num_sub rt a b = roundNumber rt (a - b)"

subsection \<open>Time window filter (lines 57-65)\<close>

definition msPerDay :: int where
  "msPerDay = 86400000"

text \<open>
  \<^verbatim>\<open>cutoffDate = new Date(); cutoffDate.setDate(cutoffDate.getDate() - daysAgo)\<close>.
  \<^verbatim>\<open>setDate\<close> works on the local time value: it replaces the day of the month, which moves
  the local calendar date back by \<open>daysAgo\<close> days and keeps the local time of day, and
  converts the result back to an instant.
\<close>

definition cutoffDate :: "runtime \<Rightarrow> int \<Rightarrow> int \<Rightarrow> int" where
  "cutoffDate rt now daysAgo = utcOfLocal rt (localTime rt now - daysAgo * msPerDay)"

text \<open>\<^verbatim>\<open>order.createdAt?.toDate?.() || new Date(0)\<close>\<close>

definition orderDate :: "order \<Rightarrow> int" where
  "orderDate ord = (case createdAt ord of Some t \<Rightarrow> t | None \<Rightarrow> 0)"

definition filteredOrders :: "runtime \<Rightarrow> int \<Rightarrow> int \<Rightarrow> order list \<Rightarrow> order list" where
  "filteredOrders rt now daysAgo orders =
     filter (\<lambda>ord. cutoffDate rt now daysAgo \<le> orderDate ord) orders"

subsection \<open>Totals (lines 67-70)\<close>

definition totalRevenue :: "order list \<Rightarrow> rat" where
  "totalRevenue fos =
     foldl (\<lambda>sum ord. sum + (case totalAmount ord of None \<Rightarrow> 0 | Some a \<Rightarrow> a)) 0 fos"

definition totalOrders :: "order list \<Rightarrow> nat" where
  "totalOrders fos = length fos"

text \<open>
  The quotient of two numbers; \<open>None\<close> when the divisor is zero, where JavaScript yields
  NaN or an infinity.
\<close>

definition divide_number :: "rat \<Rightarrow> rat \<Rightarrow> rat option" where
  "divide_number a b = (if b = 0 then None else Some (a / b))"

definition averageOrderValue :: "order list \<Rightarrow> rat option" where
  "averageOrderValue fos =
     (if totalOrders fos > 0
      then divide_number (totalRevenue fos) (of_nat (totalOrders fos))
      else Some 0)"

subsection \<open>Objects as dictionaries, \<^verbatim>\<open>Object.entries\<close>, \<^verbatim>\<open>Array.prototype.sort\<close>\<close>

text \<open>
  The own properties of an object are an association list in creation order. \<open>obj_set\<close>
  defines an own property: an existing property keeps its place, a new one goes to the
  end. \<open>map_of obj k\<close> is the own property \<open>k\<close>, with \<open>None\<close> when there is none.
\<close>

fun obj_set :: "(string \<times> 'v) list \<Rightarrow> string \<Rightarrow> 'v \<Rightarrow> (string \<times> 'v) list" where
  "obj_set [] k v = [(k, v)]"
| "obj_set ((k', v') # kvs) k v =
     (if k' = k then (k, v) # kvs else (k', v') # obj_set kvs k v)"

text \<open>
  The names that an object created by \<^verbatim>\<open>{}\<close> inherits from \<^verbatim>\<open>Object.prototype\<close>: the
  properties of ECMAScript and of its Annex B. All of them are functions, except
  \<^verbatim>\<open>__proto__\<close>, an accessor whose getter returns \<^verbatim>\<open>Object.prototype\<close> and whose setter
  ignores a value that is neither an object nor null. An inherited value is truthy.
\<close>

definition inherited_names :: "string list" where
  "inherited_names =
     [''__proto__'', ''constructor'', ''hasOwnProperty'', ''isPrototypeOf'',
      ''propertyIsEnumerable'', ''toLocaleString'', ''toString'', ''valueOf'',
      ''__defineGetter__'', ''__defineSetter__'', ''__lookupGetter__'', ''__lookupSetter__'']"

definition is_inherited :: "string \<Rightarrow> bool" where
  "is_inherited k = (k \<in> set inherited_names)"

text \<open>
  The value of a property of \<^verbatim>\<open>categoryRevenue\<close> or \<^verbatim>\<open>statusCount\<close>: a number, or \<open>Other\<close>, a
  truthy value that is not a number (an inherited function or object, or the string that
  \<^verbatim>\<open>+\<close> makes of such a value and a number).
\<close>

datatype 'n property = Number 'n | Other

text \<open>\<^verbatim>\<open>obj[k]\<close>: the own property, else the inherited value, else \<^verbatim>\<open>undefined\<close> (\<open>None\<close>).\<close>

definition read_property :: "(string \<times> 'n property) list \<Rightarrow> string \<Rightarrow> 'n property option" where
  "read_property obj k =
     (case map_of obj k of
        Some v \<Rightarrow> Some v
      | None \<Rightarrow> if is_inherited k then Some Other else None)"

text \<open>
  \<^verbatim>\<open>obj[k] = v\<close> for a number or a string \<open>v\<close>: the setter of \<^verbatim>\<open>__proto__\<close> ignores it, any
  other name becomes an own property.
\<close>

definition write_property ::
  "(string \<times> 'n property) list \<Rightarrow> string \<Rightarrow> 'n property \<Rightarrow> (string \<times> 'n property) list" where
  "write_property obj k v = (if k = ''__proto__'' then obj else obj_set obj k v)"

text \<open>\<^verbatim>\<open>v || 0\<close>: \<^verbatim>\<open>undefined\<close> and 0 are falsy.\<close>

definition or_zero :: "('n::zero) property option \<Rightarrow> 'n property" where
  "or_zero v = (case v of None \<Rightarrow> Number 0 | Some (Number x) \<Rightarrow> Number x | Some Other \<Rightarrow> Other)"

text \<open>
  \<^verbatim>\<open>v + x\<close> for a number \<open>x\<close>: the sum when \<open>v\<close> is a number, and a string otherwise; \<open>f\<close> is
  the addition of \<open>x\<close>.
\<close>

definition plus_number :: "('n \<Rightarrow> 'n) \<Rightarrow> 'n property \<Rightarrow> 'n property" where
  "plus_number f v = (case v of Number x \<Rightarrow> Number (f x) | Other \<Rightarrow> Other)"

text \<open>
  ECMAScript enumerates the own string keys of an ordinary object (OrdinaryOwnPropertyKeys)
  with the array indices first, in ascending numeric order, and then the other keys in
  the order of their creation. An array index is the canonical decimal numeral of an
  integer from 0 to \<open>2^32 - 2\<close>: digits only, and no leading zero unless it is \<^verbatim>\<open>"0"\<close>.
\<close>

definition is_digit :: "char \<Rightarrow> bool" where
  "is_digit c = (48 \<le> (of_char c :: nat) \<and> (of_char c :: nat) \<le> 57)"

definition digits_value :: "string \<Rightarrow> nat" where
  "digits_value s = foldl (\<lambda>n c. 10 * n + (of_char c - 48)) 0 s"

definition is_array_index :: "string \<Rightarrow> bool" where
  "is_array_index s =
     (case s of
        [] \<Rightarrow> False
      | c # cs \<Rightarrow> list_all is_digit s \<and> (cs = [] \<or> c \<noteq> CHR ''0'')
                 \<and> digits_value s < 4294967295)"

definition Object_entries :: "(string \<times> 'v) list \<Rightarrow> (string \<times> 'v) list" where
  "Object_entries obj =
     sort_key (\<lambda>kv. digits_value (fst kv)) (filter (\<lambda>kv. is_array_index (fst kv)) obj)
     @ filter (\<lambda>kv. \<not> is_array_index (fst kv)) obj"

definition Object_values :: "(string \<times> 'v) list \<Rightarrow> 'v list" where
  "Object_values obj = map snd (Object_entries obj)"

text \<open>
  \<^verbatim>\<open>Array.prototype.sort(comparefn)\<close>. SortCompare reads a comparator result that is NaN
  (here \<open>None\<close>) as \<open>+0\<close>; a negative result puts the first argument first, and the sort is
  stable. For a comparator that is consistent (it orders the elements by a key) every
  stable sort returns the same array, which the insertion sort below computes. For an
  inconsistent comparator ECMAScript leaves the order to the implementation; the theorems
  state an order only where the comparator is consistent.
\<close>

definition sort_compare :: "('a \<Rightarrow> 'a \<Rightarrow> ('n::{zero,linorder}) option) \<Rightarrow> 'a \<Rightarrow> 'a \<Rightarrow> 'n" where
  "sort_compare comparefn x y = (case comparefn x y of None \<Rightarrow> 0 | Some v \<Rightarrow> v)"

fun insert_sorted ::
  "('a \<Rightarrow> 'a \<Rightarrow> ('n::{zero,linorder}) option) \<Rightarrow> 'a \<Rightarrow> 'a list \<Rightarrow> 'a list" where
  "insert_sorted comparefn x [] = [x]"
| "insert_sorted comparefn x (y # ys) =
     (if sort_compare comparefn x y \<le> 0 then x # y # ys
      else y # insert_sorted comparefn x ys)"

definition Array_sort :: "('a \<Rightarrow> 'a \<Rightarrow> ('n::{zero,linorder}) option) \<Rightarrow> 'a list \<Rightarrow> 'a list" where
  "Array_sort comparefn xs = foldr (insert_sorted comparefn) xs []"

text \<open>\<^verbatim>\<open>xs.slice(-n)\<close>: the last \<open>n\<close> elements, all of them when there are fewer.\<close>

definition slice_last :: "nat \<Rightarrow> 'a list \<Rightarrow> 'a list" where
  "slice_last n xs = drop (length xs - n) xs"

subsection \<open>Top products (lines 72-85)\<close>

record product_sale =
  ps_name :: string
  ps_sales :: rat
  ps_revenue :: rat

text \<open>\<^verbatim>\<open>order.products?.forEach\<close>: an order without the field contributes no item.\<close>

definition order_items :: "order \<Rightarrow> line_item list" where
  "order_items ord = (case products ord of None \<Rightarrow> [] | Some items \<Rightarrow> items)"

text \<open>
  \<^verbatim>\<open>entry.sales += item.quantity; entry.revenue += item.price * item.quantity\<close> on the entry
  of the item's product id.
\<close>

definition add_item :: "runtime \<Rightarrow> product_sale \<Rightarrow> line_item \<Rightarrow> product_sale" where
  "add_item rt entry item =
     entry\<lparr>ps_sales := num_add rt (ps_sales entry) (quantity item),
           ps_revenue := num_add rt (ps_revenue entry)
                           (num_mul rt (price item) (quantity item))\<rparr>"

text \<open>
  The body of the inner loop. \<^verbatim>\<open>!productSales[item.productId]\<close> holds when the id is
  neither an own property nor an inherited name; then the entry
  \<^verbatim>\<open>{ name: item.name, sales: 0, revenue: 0 }\<close> is created. The two updates go to the entry of
  the id. For an inherited name that is the inherited function or object, which is not a
  property of \<^verbatim>\<open>productSales\<close>: the dictionary stays as it is.
\<close>

definition productSales_item ::
  "runtime \<Rightarrow> (string \<times> product_sale) list \<Rightarrow> line_item \<Rightarrow> (string \<times> product_sale) list" where
  "productSales_item rt acc item =
     (case map_of acc (productId item) of
        Some entry \<Rightarrow> obj_set acc (productId item) (add_item rt entry item)
      | None \<Rightarrow>
          if is_inherited (productId item) then acc
          else obj_set acc (productId item)
                 (add_item rt \<lparr>ps_name = item_name item, ps_sales = 0, ps_revenue = 0\<rparr> item))"

definition productSales :: "runtime \<Rightarrow> order list \<Rightarrow> (string \<times> product_sale) list" where
  "productSales rt fos =
     foldl (\<lambda>acc ord. foldl (productSales_item rt) acc (order_items ord)) [] fos"

text \<open>\<^verbatim>\<open>(a, b) => b.revenue - a.revenue\<close>\<close>

definition by_revenue_desc :: "runtime \<Rightarrow> product_sale \<Rightarrow> product_sale \<Rightarrow> rat option" where
  "by_revenue_desc rt a b = Some (num_sub rt (ps_revenue b) (ps_revenue a))"

definition topProducts :: "runtime \<Rightarrow> order list \<Rightarrow> product_sale list" where
  "topProducts rt fos =
     take 5 (Array_sort (by_revenue_desc rt) (Object_values (productSales rt fos)))"

subsection \<open>Revenue by category (lines 87-99)\<close>

text \<open>\<^verbatim>\<open>category?.name || 'Unknown'\<close> for the category found for the product's \<^verbatim>\<open>categoryId\<close>.\<close>

definition categoryName_of :: "category list \<Rightarrow> product \<Rightarrow> string" where
  "categoryName_of categories pr =
     (case find (\<lambda>c. category_id c = categoryId pr) categories of
        None \<Rightarrow> ''Unknown''
      | Some c \<Rightarrow> if category_name c = [] then ''Unknown'' else category_name c)"

text \<open>
  \<^verbatim>\<open>categoryRevenue[categoryName] = (categoryRevenue[categoryName] || 0) + item.price * item.quantity\<close>,
  inside the guard \<^verbatim>\<open>if (product)\<close>.
\<close>

definition categoryRevenue_item ::
  "runtime \<Rightarrow> product list \<Rightarrow> category list \<Rightarrow> (string \<times> rat property) list \<Rightarrow> line_item
     \<Rightarrow> (string \<times> rat property) list" where
  "categoryRevenue_item rt prods categories acc item =
     (case find (\<lambda>p. product_id p = productId item) prods of
        None \<Rightarrow> acc
      | Some pr \<Rightarrow>
          write_property acc (categoryName_of categories pr)
            (plus_number (\<lambda>v. num_add rt v (num_mul rt (price item) (quantity item)))
               (or_zero (read_property acc (categoryName_of categories pr)))))"

definition categoryRevenue ::
  "runtime \<Rightarrow> product list \<Rightarrow> category list \<Rightarrow> order list \<Rightarrow> (string \<times> rat property) list" where
  "categoryRevenue rt prods categories fos =
     foldl (\<lambda>acc ord. foldl (categoryRevenue_item rt prods categories) acc (order_items ord))
       [] fos"

record category_value =
  cv_name :: string
  cv_value :: "rat property"

definition revenueByCategory ::
  "runtime \<Rightarrow> product list \<Rightarrow> category list \<Rightarrow> order list \<Rightarrow> category_value list" where
  "revenueByCategory rt prods categories fos =
     map (\<lambda>kv. \<lparr>cv_name = fst kv, cv_value = snd kv\<rparr>)
       (Object_entries (categoryRevenue rt prods categories fos))"

subsection \<open>Sales over time (lines 101-114)\<close>

record day_sales =
  ds_sales :: nat
  ds_revenue :: rat

record sales_point =
  sp_date :: string
  sp_sales :: nat
  sp_revenue :: rat

text \<open>\<^verbatim>\<open>order.createdAt?.toDate?.()?.toLocaleDateString() || 'Unknown'\<close>\<close>

definition dateKey :: "runtime \<Rightarrow> order \<Rightarrow> string" where
  "dateKey rt ord =
     (case createdAt ord of
        None \<Rightarrow> ''Unknown''
      | Some t \<Rightarrow> if toLocaleDateString rt t = [] then ''Unknown'' else toLocaleDateString rt t)"

text \<open>\<^verbatim>\<open>entry.sales += 1; entry.revenue += order.totalAmount || 0\<close> on the entry of the date.\<close>

definition add_order :: "runtime \<Rightarrow> day_sales \<Rightarrow> order \<Rightarrow> day_sales" where
  "add_order rt entry ord =
     entry\<lparr>ds_sales := ds_sales entry + 1,
           ds_revenue := num_add rt (ds_revenue entry)
                           (case totalAmount ord of None \<Rightarrow> 0 | Some a \<Rightarrow> a)\<rparr>"

text \<open>
  The body of the loop, of the same shape as the loop of the top products: a date that is
  an inherited name creates no property.
\<close>

definition salesByDate_order ::
  "runtime \<Rightarrow> (string \<times> day_sales) list \<Rightarrow> order \<Rightarrow> (string \<times> day_sales) list" where
  "salesByDate_order rt acc ord =
     (case map_of acc (dateKey rt ord) of
        Some entry \<Rightarrow> obj_set acc (dateKey rt ord) (add_order rt entry ord)
      | None \<Rightarrow>
          if is_inherited (dateKey rt ord) then acc
          else obj_set acc (dateKey rt ord)
                 (add_order rt \<lparr>ds_sales = 0, ds_revenue = 0\<rparr> ord))"

definition salesByDate :: "runtime \<Rightarrow> order list \<Rightarrow> (string \<times> day_sales) list" where
  "salesByDate rt fos = foldl (salesByDate_order rt) [] fos"

text \<open>\<^verbatim>\<open>(a, b) => new Date(a.date).getTime() - new Date(b.date).getTime()\<close>\<close>

definition by_date_asc :: "runtime \<Rightarrow> sales_point \<Rightarrow> sales_point \<Rightarrow> int option" where
  "by_date_asc rt a b =
     (case parseDate rt (sp_date a) of
        None \<Rightarrow> None
      | Some ta \<Rightarrow> (case parseDate rt (sp_date b) of None \<Rightarrow> None | Some tb \<Rightarrow> Some (ta - tb)))"

definition salesOverTime :: "runtime \<Rightarrow> order list \<Rightarrow> sales_point list" where
  "salesOverTime rt fos =
     slice_last 14
       (Array_sort (by_date_asc rt)
          (map (\<lambda>kv. \<lparr>sp_date = fst kv, sp_sales = ds_sales (snd kv),
                       sp_revenue = ds_revenue (snd kv)\<rparr>)
             (Object_entries (salesByDate rt fos))))"

subsection \<open>Orders by status (lines 116-122)\<close>

text \<open>\<^verbatim>\<open>order.status || 'Unknown'\<close>: a missing status and the empty string are both falsy.\<close>

definition statusKey :: "order \<Rightarrow> string" where
  "statusKey ord =
     (case status ord of
        None \<Rightarrow> ''Unknown''
      | Some s \<Rightarrow> if s = [] then ''Unknown'' else s)"

text \<open>\<^verbatim>\<open>statusCount[status] = (statusCount[status] || 0) + 1\<close>\<close>

definition statusCount_order ::
  "(string \<times> nat property) list \<Rightarrow> order \<Rightarrow> (string \<times> nat property) list" where
  "statusCount_order acc ord =
     write_property acc (statusKey ord)
       (plus_number (\<lambda>c. c + 1) (or_zero (read_property acc (statusKey ord))))"

definition statusCount :: "order list \<Rightarrow> (string \<times> nat property) list" where
  "statusCount fos = foldl statusCount_order [] fos"

record status_count =
  sc_status :: string
  sc_count :: "nat property"

definition ordersByStatus :: "order list \<Rightarrow> status_count list" where
  "ordersByStatus fos =
     map (\<lambda>kv. \<lparr>sc_status = fst kv, sc_count = snd kv\<rparr>) (Object_entries (statusCount fos))"

subsection \<open>The run of \<^verbatim>\<open>fetchAnalytics\<close> (lines 44-138)\<close>

record AnalyticsData =
  an_totalRevenue :: rat
  an_totalOrders :: nat
  an_averageOrderValue :: "rat option"
  an_topProducts :: "product_sale list"
  an_revenueByCategory :: "category_value list"
  an_salesOverTime :: "sales_point list"
  an_ordersByStatus :: "status_count list"

text \<open>
  The variables the run reads and writes: the three arrays built from the snapshot, the
  arrays and objects the run allocates, and the component state (\<open>loading\<close>, \<open>analytics\<close>).
  \<open>ranking_arr\<close> is the array that \<^verbatim>\<open>Object.values(productSales)\<close> returns and
  \<open>series_arr\<close> the array that \<^verbatim>\<open>Object.entries(salesByDate).map(...)\<close> returns;
  \<^verbatim>\<open>sort\<close> rearranges each of them in place.
\<close>

record store =
  orders_arr :: "order list"
  products_arr :: "product list"
  categories_arr :: "category list"
  filtered_arr :: "order list"
  productSales_obj :: "(string \<times> product_sale) list"
  ranking_arr :: "product_sale list"
  categoryRevenue_obj :: "(string \<times> rat property) list"
  salesByDate_obj :: "(string \<times> day_sales) list"
  series_arr :: "sales_point list"
  statusCount_obj :: "(string \<times> nat property) list"
  loading :: bool
  analytics :: AnalyticsData

text \<open>
  One run, statement by statement, for a snapshot that was read successfully. \<open>now\<close> is
  the instant \<^verbatim>\<open>new Date()\<close> returns and \<open>daysAgo\<close> is \<^verbatim>\<open>parseInt(timeRange)\<close>.
\<close>

definition fetchAnalytics :: "runtime \<Rightarrow> int \<Rightarrow> int \<Rightarrow> store \<Rightarrow> store" where
  "fetchAnalytics rt now daysAgo s =
     (let s1 = s\<lparr>loading := True\<rparr>;
          s2 = s1\<lparr>filtered_arr :=
                 filter (\<lambda>ord. cutoffDate rt now daysAgo \<le> orderDate ord) (orders_arr s1)\<rparr>;
          s3 = s2\<lparr>productSales_obj :=
                 foldl (\<lambda>acc ord. foldl (productSales_item rt) acc (order_items ord)) []
                   (filtered_arr s2)\<rparr>;
          s4 = s3\<lparr>ranking_arr := Object_values (productSales_obj s3)\<rparr>;
          s5 = s4\<lparr>ranking_arr := Array_sort (by_revenue_desc rt) (ranking_arr s4)\<rparr>;
          s6 = s5\<lparr>categoryRevenue_obj :=
                 foldl (\<lambda>acc ord. foldl (categoryRevenue_item rt (products_arr s5)
                                             (categories_arr s5))
                                    acc (order_items ord)) []
                   (filtered_arr s5)\<rparr>;
          s7 = s6\<lparr>salesByDate_obj := foldl (salesByDate_order rt) [] (filtered_arr s6)\<rparr>;
          s8 = s7\<lparr>series_arr :=
                 map (\<lambda>kv. \<lparr>sp_date = fst kv, sp_sales = ds_sales (snd kv),
                              sp_revenue = ds_revenue (snd kv)\<rparr>)
                   (Object_entries (salesByDate_obj s7))\<rparr>;
          s9 = s8\<lparr>series_arr := Array_sort (by_date_asc rt) (series_arr s8)\<rparr>;
          s10 = s9\<lparr>statusCount_obj := foldl statusCount_order [] (filtered_arr s9)\<rparr>;
          s11 = s10\<lparr>analytics :=
                  \<lparr>an_totalRevenue = totalRevenue (filtered_arr s10),
                   an_totalOrders = totalOrders (filtered_arr s10),
                   an_averageOrderValue = averageOrderValue (filtered_arr s10),
                   an_topProducts = take 5 (ranking_arr s10),
                   an_revenueByCategory =
                     map (\<lambda>kv. \<lparr>cv_name = fst kv, cv_value = snd kv\<rparr>)
                       (Object_entries (categoryRevenue_obj s10)),
                   an_salesOverTime = slice_last 14 (series_arr s10),
                   an_ordersByStatus =
                     map (\<lambda>kv. \<lparr>sc_status = fst kv, sc_count = snd kv\<rparr>)
                       (Object_entries (statusCount_obj s10))\<rparr>\<rparr>
      in s11\<lparr>loading := False\<rparr>)"

text \<open>
  The component state before the first run (\<^verbatim>\<open>useState\<close>, lines 28-38), with the arrays of a
  snapshot.
\<close>

definition initial_analytics :: AnalyticsData where
  "initial_analytics =
     \<lparr>an_totalRevenue = 0, an_totalOrders = 0, an_averageOrderValue = Some 0,
      an_topProducts = [], an_revenueByCategory = [], an_salesOverTime = [],
      an_ordersByStatus = []\<rparr>"

definition initial_store :: "order list \<Rightarrow> product list \<Rightarrow> category list \<Rightarrow> store" where
  "initial_store os ps cs =
     \<lparr>orders_arr = os, products_arr = ps, categories_arr = cs, filtered_arr = [],
      productSales_obj = [], ranking_arr = [], categoryRevenue_obj = [],
      salesByDate_obj = [], series_arr = [], statusCount_obj = [],
      loading = True, analytics = initial_analytics\<rparr>"

text \<open>The report as a function of the filtered orders and the two auxiliary collections.\<close>

definition report :: "runtime \<Rightarrow> product list \<Rightarrow> category list \<Rightarrow> order list \<Rightarrow> AnalyticsData" where
  "report rt prods categories fos =
     \<lparr>an_totalRevenue = totalRevenue fos,
      an_totalOrders = totalOrders fos,
      an_averageOrderValue = averageOrderValue fos,
      an_topProducts = topProducts rt fos,
      an_revenueByCategory = revenueByCategory rt prods categories fos,
      an_salesOverTime = salesOverTime rt fos,
      an_ordersByStatus = ordersByStatus fos\<rparr>"

subsection \<open>Notions the statements use\<close>

text \<open>All line items of the orders, in the order the loops visit them.\<close>

definition all_items :: "order list \<Rightarrow> line_item list" where
  "all_items fos = concat (map order_items fos)"

text \<open>The revenue of a line item and the total line-item revenue of a set of orders, exact.\<close>

definition item_revenue :: "line_item \<Rightarrow> rat" where
  "item_revenue item = price item * quantity item"

definition lineItemRevenue :: "order list \<Rightarrow> rat" where
  "lineItemRevenue fos = sum_list (map item_revenue (all_items fos))"

text \<open>
  The revenue of a line item and the sum of a list of numbers as the loops compute them:
  the product rounded, and the numbers added to 0 one after the other, each sum rounded.
\<close>

definition rounded_revenue :: "runtime \<Rightarrow> line_item \<Rightarrow> rat" where
  "rounded_revenue rt item = num_mul rt (price item) (quantity item)"

definition accumulated :: "runtime \<Rightarrow> rat list \<Rightarrow> rat" where
  "accumulated rt xs = foldl (num_add rt) 0 xs"

text \<open>The elements of a list in the order of their first occurrence.\<close>

definition first_seen :: "'a list \<Rightarrow> 'a list" where
  "first_seen xs = rev (remdups (rev xs))"

text \<open>
  The category label a line item resolves to: \<open>None\<close> when no product of the snapshot has
  the item's product id.
\<close>

definition resolved_category :: "product list \<Rightarrow> category list \<Rightarrow> line_item \<Rightarrow> string option" where
  "resolved_category prods categories item =
     (case find (\<lambda>p. product_id p = productId item) prods of
        None \<Rightarrow> None
      | Some pr \<Rightarrow> Some (categoryName_of categories pr))"

text \<open>
  The group of a product id: the name on its first item, and its units and its revenue
  accumulated over its items in the order of the line items.
\<close>

definition product_group :: "runtime \<Rightarrow> line_item list \<Rightarrow> string \<Rightarrow> product_sale" where
  "product_group rt items pid =
     \<lparr>ps_name = (case filter (\<lambda>i. productId i = pid) items of [] \<Rightarrow> [] | i # _ \<Rightarrow> item_name i),
      ps_sales = accumulated rt (map quantity (filter (\<lambda>i. productId i = pid) items)),
      ps_revenue =
        accumulated rt (map (rounded_revenue rt) (filter (\<lambda>i. productId i = pid) items))\<rparr>"

text \<open>
  The shape the four accumulating loops share when no key is an inherited name: the entry
  of the element's key, or a fresh one, is updated by the element and stored under the key.
\<close>

definition group_step ::
  "('x \<Rightarrow> string) \<Rightarrow> ('x \<Rightarrow> 'v) \<Rightarrow> ('v \<Rightarrow> 'x \<Rightarrow> 'v) \<Rightarrow> (string \<times> 'v) list \<Rightarrow> 'x \<Rightarrow> (string \<times> 'v) list" where
  "group_step key init upd acc x =
     obj_set acc (key x) (upd (case map_of acc (key x) of None \<Rightarrow> init x | Some e \<Rightarrow> e) x)"


text \<open>
  The order in which \<^verbatim>\<open>Object.entries\<close> and \<^verbatim>\<open>Object.values\<close> enumerate keys that were
  created in the order \<open>ks\<close>.
\<close>

definition enumeration_order :: "string list \<Rightarrow> string list" where
  "enumeration_order ks =
     sort_key digits_value (filter is_array_index ks) @ filter (\<lambda>k. \<not> is_array_index k) ks"

text \<open>The sum of a list of property values: \<open>None\<close> when one of them is not a number.\<close>

fun sum_numbers :: "('n::monoid_add) property list \<Rightarrow> 'n option" where
  "sum_numbers [] = Some 0"
| "sum_numbers (Number x # vs) = map_option (\<lambda>s. x + s) (sum_numbers vs)"
| "sum_numbers (Other # vs) = None"

text \<open>A dictionary all of whose values are the numbers of \<open>obj\<close>.\<close>

definition numbers :: "(string \<times> 'n) list \<Rightarrow> (string \<times> 'n property) list" where
  "numbers obj = map (\<lambda>kv. (fst kv, Number (snd kv))) obj"


definition whole :: "rat \<Rightarrow> bool" where
  "whole x = (0 \<le> x \<and> of_int \<lfloor>x\<rfloor> = x)"

definition whole_amounts :: "line_item list \<Rightarrow> bool" where
  "whole_amounts items =
     ((\<forall>i \<in> set items. whole (price i) \<and> whole (quantity i))
      \<and> sum_list (map item_revenue items) \<le> 9007199254740992
      \<and> sum_list (map quantity items) \<le> 9007199254740992)"

text \<open>
  The comparator of the ranking reads the sign of a rounded difference. For two revenues
  of a list that sign is the sign of the difference; it is for any two IEEE 754 doubles,
  whose difference is never rounded to zero or across it.
\<close>

definition differences_keep_sign :: "runtime \<Rightarrow> rat list \<Rightarrow> bool" where
  "differences_keep_sign rt vs =
     (\<forall>x \<in> set vs. \<forall>y \<in> set vs. (0 < roundNumber rt (x - y)) = (0 < x - y))"

text \<open>The accumulated revenues of the product groups of a list of line items.\<close>

definition group_revenues :: "runtime \<Rightarrow> line_item list \<Rightarrow> rat list" where
  "group_revenues rt items =
     map (\<lambda>pid. ps_revenue (product_group rt items pid)) (first_seen (map productId items))"

text \<open>The start of the local calendar day of an instant.\<close>

definition startOfLocalDay :: "runtime \<Rightarrow> int \<Rightarrow> int" where
  "startOfLocalDay rt t = utcOfLocal rt ((localTime rt t div msPerDay) * msPerDay)"

text \<open>
  The order has a date, and the runtime reads its date string back: the string is not
  empty and no inherited name, it is the string of the start of the order's local day,
  and \<^verbatim>\<open>new Date\<close> parses it as the start of that day.
\<close>

definition date_read_back :: "runtime \<Rightarrow> order \<Rightarrow> bool" where
  "date_read_back rt ord =
     (case createdAt ord of
        None \<Rightarrow> False
      | Some t \<Rightarrow>
          toLocaleDateString rt t \<noteq> []
          \<and> \<not> is_inherited (toLocaleDateString rt t)
          \<and> toLocaleDateString rt t = toLocaleDateString rt (startOfLocalDay rt t)
          \<and> parseDate rt (toLocaleDateString rt t) = Some (startOfLocalDay rt t))"

text \<open>The local days on which the orders were placed, ascending, each once.\<close>

definition order_days :: "runtime \<Rightarrow> order list \<Rightarrow> int list" where
  "order_days rt fos = sorted_list_of_set ((\<lambda>ord. startOfLocalDay rt (orderDate ord)) ` set fos)"

text \<open>
  The cutoff as the specification words it: \<open>now\<close> minus the window, truncated to the start
  of the local day.
\<close>

definition spec_cutoff :: "runtime \<Rightarrow> int \<Rightarrow> int \<Rightarrow> int" where
  "spec_cutoff rt now windowDays = startOfLocalDay rt (now - windowDays * msPerDay)"

subsection \<open>Rounding to the nearest double\<close>

text \<open>
  The rounding of IEEE 754 binary64 arithmetic, round to nearest and ties to even, on the
  rationals: a number of the binade \<open>e\<close> (between \<open>2^e\<close> and \<open>2^(e+1)\<close>) is rounded to a
  multiple of \<open>2^(e-52)\<close>, and a number below \<open>2^(-1022)\<close> to a multiple of \<open>2^(-1074)\<close>. A
  whole number up to \<open>2^53\<close> is a double. Overflow is not modelled.
\<close>

definition round_half_even :: "rat \<Rightarrow> int" where
  "round_half_even x =
     (if x - of_int \<lfloor>x\<rfloor> < 1 / 2 then \<lfloor>x\<rfloor>
      else if 1 / 2 < x - of_int \<lfloor>x\<rfloor> then \<lfloor>x\<rfloor> + 1
      else if even \<lfloor>x\<rfloor> then \<lfloor>x\<rfloor> else \<lfloor>x\<rfloor> + 1)"

definition scale2 :: "rat \<Rightarrow> int \<Rightarrow> rat" where
  "scale2 x k = (if 0 \<le> k then x * 2 ^ nat k else x / 2 ^ nat (- k))"

fun bit_length :: "int \<Rightarrow> int" where
  "bit_length n = (if n \<le> 0 then 0 else bit_length (n div 2) + 1)"

declare bit_length.simps [simp del]

text \<open>The binade of a positive number \<open>x\<close>: the \<open>e\<close> with \<open>2^e \<le> x < 2^(e+1)\<close>.\<close>

definition binade :: "rat \<Rightarrow> int" where
  "binade x = (if 1 \<le> x then bit_length \<lfloor>x\<rfloor> - 1 else - bit_length (\<lceil>1 / x\<rceil> - 1))"

definition round_at :: "rat \<Rightarrow> int \<Rightarrow> rat" where
  "round_at x e = scale2 (of_int (round_half_even (scale2 x (52 - e)))) (e - 52)"

definition round_positive :: "rat \<Rightarrow> rat" where
  "round_positive x = round_at x (max (binade x) (- 1022))"

definition round_double :: "rat \<Rightarrow> rat" where
  "round_double x =
     (if of_int \<lfloor>\<bar>x\<bar>\<rfloor> = \<bar>x\<bar> \<and> \<bar>x\<bar> \<le> 9007199254740992 then x
      else if 0 < x then round_positive x
      else - round_positive (- x))"

subsection \<open>Concrete runtimes\<close>

text \<open>
  The civil calendar, computed from the day number with the usual era arithmetic of the
  proleptic Gregorian calendar.
\<close>

definition civil_of_month :: "int \<Rightarrow> int \<Rightarrow> int \<Rightarrow> int \<times> int \<times> int" where
  "civil_of_month y doy mp =
     (if mp < 10 then (y, mp + 3, doy - (153 * mp + 2) div 5 + 1)
      else (y + 1, mp - 9, doy - (153 * mp + 2) div 5 + 1))"

definition civil_of_day_of_year :: "int \<Rightarrow> int \<Rightarrow> int \<times> int \<times> int" where
  "civil_of_day_of_year y doy = civil_of_month y doy ((5 * doy + 2) div 153)"

definition civil_of_year :: "int \<Rightarrow> int \<Rightarrow> int \<Rightarrow> int \<times> int \<times> int" where
  "civil_of_year era doe yoe =
     civil_of_day_of_year (yoe + era * 400) (doe - (365 * yoe + yoe div 4 - yoe div 100))"

definition civil_of_era :: "int \<Rightarrow> int \<Rightarrow> int \<times> int \<times> int" where
  "civil_of_era era doe =
     civil_of_year era doe ((doe - doe div 1460 + doe div 36524 - doe div 146096) div 365)"

text \<open>Year, month and day of the day number \<open>z\<close> (days since 1 January 1970).\<close>

definition civil_from_days :: "int \<Rightarrow> int \<times> int \<times> int" where
  "civil_from_days z = civil_of_era ((z + 719468) div 146097) ((z + 719468) mod 146097)"

definition days_of_year :: "int \<Rightarrow> int \<Rightarrow> int" where
  "days_of_year y doy =
     (y div 400) * 146097
     + ((y mod 400) * 365 + (y mod 400) div 4 - (y mod 400) div 100 + doy) - 719468"

text \<open>The day number of a year, month and day.\<close>

definition days_from_civil :: "int \<Rightarrow> int \<Rightarrow> int \<Rightarrow> int" where
  "days_from_civil y m d =
     days_of_year (if m \<le> 2 then y - 1 else y)
       ((153 * (if m > 2 then m - 3 else m + 9) + 2) div 5 + d - 1)"

fun show_nat :: "nat \<Rightarrow> string" where
  "show_nat n =
     (if n < 10 then [''0123456789'' ! n]
      else show_nat (n div 10) @ [''0123456789'' ! (n mod 10)])"

declare show_nat.simps [simp del]

definition show_two_digits :: "nat \<Rightarrow> string" where
  "show_two_digits n = (if n < 10 then ''0'' @ show_nat n else show_nat n)"

fun split_on :: "char \<Rightarrow> string \<Rightarrow> string list" where
  "split_on c [] = [[]]"
| "split_on c (x # xs) =
     (if x = c then [] # split_on c xs
      else (case split_on c xs of [] \<Rightarrow> [[x]] | w # ws \<Rightarrow> (x # w) # ws))"

definition read_nat :: "string \<Rightarrow> nat option" where
  "read_nat s = (if s \<noteq> [] \<and> list_all is_digit s then Some (digits_value s) else None)"

text \<open>
  \<^verbatim>\<open>toLocaleDateString\<close> of the locale en-US prints month/day/year without padding, that of
  en-GB prints day/month/year with two digits for day and month. Both take the local
  time value.
\<close>

definition en_US_format :: "int \<Rightarrow> string" where
  "en_US_format t =
     (case civil_from_days (t div msPerDay) of
        (y, m, d) \<Rightarrow> show_nat (nat m) @ ''/'' @ show_nat (nat d) @ ''/'' @ show_nat (nat y))"

definition en_GB_format :: "int \<Rightarrow> string" where
  "en_GB_format t =
     (case civil_from_days (t div msPerDay) of
        (y, m, d) \<Rightarrow>
          show_two_digits (nat d) @ ''/'' @ show_two_digits (nat m) @ ''/'' @ show_nat (nat y))"

text \<open>
  \<^verbatim>\<open>new Date(s)\<close> for a string of three numbers separated by slashes: the parser of the
  browsers reads month/day/year in every locale, as the start of that local day (here its
  local time value), and gives an invalid date for a month that is not one.
\<close>

definition slash_date_parse :: "string \<Rightarrow> int option" where
  "slash_date_parse s =
     (case map read_nat (split_on (CHR ''/'') s) of
        [Some m, Some d, Some y] \<Rightarrow>
          if 1 \<le> m \<and> m \<le> 12 \<and> 1 \<le> d \<and> d \<le> 31
          then Some (days_from_civil (int y) (int m) (int d) * msPerDay)
          else None
      | _ \<Rightarrow> None)"

text \<open>The locales en-US and en-GB in the time zone UTC.\<close>

definition en_US_UTC :: runtime where
  "en_US_UTC =
     \<lparr>toLocaleDateString = en_US_format, parseDate = slash_date_parse,
      localTime = (\<lambda>t. t), utcOfLocal = (\<lambda>t. t), roundNumber = round_double\<rparr>"

definition en_GB_UTC :: runtime where
  "en_GB_UTC =
     \<lparr>toLocaleDateString = en_GB_format, parseDate = slash_date_parse,
      localTime = (\<lambda>t. t), utcOfLocal = (\<lambda>t. t), roundNumber = round_double\<rparr>"

text \<open>
  The time zone America/New_York between its changes of 8 March 2026 and 14 March 2027:
  four hours behind UTC until 1 November 2026, 06:00 UTC, and five hours from then on. A
  local time that occurs twice is read with the offset before the change.
\<close>

definition new_york_local :: "int \<Rightarrow> int" where
  "new_york_local t = (if t < 1793512800000 then t - 14400000 else t - 18000000)"

definition new_york_utc :: "int \<Rightarrow> int" where
  "new_york_utc t = (if t < 1793498400000 then t + 14400000 else t + 18000000)"

definition en_US_New_York :: runtime where
  "en_US_New_York =
     \<lparr>toLocaleDateString = (\<lambda>t. en_US_format (new_york_local t)),
      parseDate = (\<lambda>s. map_option new_york_utc (slash_date_parse s)),
      localTime = new_york_local, utcOfLocal = new_york_utc, roundNumber = round_double\<rparr>"

subsection \<open>Example snapshots\<close>

text \<open>Three orders that differ in their status only: none, \<^verbatim>\<open>"Pending"\<close>, \<^verbatim>\<open>"pending"\<close>.\<close>

definition order_without_status :: order where
  "order_without_status =
     \<lparr>order_id = ''e1'', createdAt = Some 0, totalAmount = Some 10, status = None,
      products = None\<rparr>"

definition status_orders :: "order list" where
  "status_orders =
     [order_without_status,
      order_without_status\<lparr>order_id := ''e2'', status := Some ''Pending''\<rparr>,
      order_without_status\<lparr>order_id := ''e3'', status := Some ''pending''\<rparr>]"





definition undated_order :: order where
  "undated_order =
     \<lparr>order_id = ''w2'', createdAt = None, totalAmount = Some 5, status = Some ''Pending'',
      products = None\<rparr>"

text \<open>
  New York, 3 November 2026, 12:00 EST (17:00 UTC), two days after the clocks went back;
  and an order placed on 27 October 2026 at 12:30 EDT (16:30 UTC).
\<close>

definition new_york_noon :: int where
  "new_york_noon = 1793725200000"

definition new_york_order :: order where
  "new_york_order =
     \<lparr>order_id = ''z1'', createdAt = Some 1793118600000, totalAmount = Some 20,
      status = Some ''Pending'', products = None\<rparr>"

text \<open>A store whose only order was placed at the start of day 5.\<close>

definition day_5_store :: store where
  "day_5_store =
     initial_store
       [\<lparr>order_id = ''d5'', createdAt = Some (5 * msPerDay), totalAmount = Some 40,
         status = Some ''Shipped'', products = None\<rparr>] [] []"

text \<open>
  Scenario B: one order whose single line item references a product id that the product
  snapshot does not contain.
\<close>

definition scenario_B_orders :: "order list" where
  "scenario_B_orders =
     [\<lparr>order_id = ''b1'', createdAt = Some (5 * msPerDay), totalAmount = Some 100,
       status = Some ''Pending'',
       products = Some [\<lparr>productId = ''p9'', item_name = ''Shirt'', price = 50, quantity = 2\<rparr>]\<rparr>]"

definition scenario_B_products :: "product list" where
  "scenario_B_products = [\<lparr>product_id = ''p1'', categoryId = ''c1''\<rparr>,
                          \<lparr>product_id = ''p2'', categoryId = ''c7''\<rparr>]"

definition scenario_B_categories :: "category list" where
  "scenario_B_categories = [\<lparr>category_id = ''c1'', category_name = ''Shirts''\<rparr>]"

text \<open>
  One order with three items: a product of the category Shirts, a product whose category
  id is dangling, and a product id that is not in the snapshot.
\<close>

definition mixed_orders :: "order list" where
  "mixed_orders =
     [\<lparr>order_id = ''m1'', createdAt = Some (5 * msPerDay), totalAmount = Some 160,
       status = Some ''Pending'',
       products = Some [\<lparr>productId = ''p1'', item_name = ''Shirt'', price = 50, quantity = 2\<rparr>,
                        \<lparr>productId = ''p2'', item_name = ''Cap'', price = 30, quantity = 1\<rparr>,
                        \<lparr>productId = ''p9'', item_name = ''Scarf'', price = 10, quantity = 3\<rparr>]\<rparr>]"

text \<open>A product snapshot that contains every product of \<open>mixed_orders\<close>.\<close>

definition mixed_products :: "product list" where
  "mixed_products = scenario_B_products @ [\<lparr>product_id = ''p9'', categoryId = ''c1''\<rparr>]"

text \<open>A category snapshot in which the category of the product \<^verbatim>\<open>p2\<close> exists and has no name.\<close>

definition unnamed_categories :: "category list" where
  "unnamed_categories = scenario_B_categories @ [\<lparr>category_id = ''c7'', category_name = []\<rparr>]"

text \<open>One order with six items of six products, each worth 1.\<close>

definition six_products_order :: "order list" where
  "six_products_order =
     [\<lparr>order_id = ''s1'', createdAt = Some (5 * msPerDay), totalAmount = Some 6,
       status = Some ''Pending'',
       products = Some (map (\<lambda>pid. \<lparr>productId = pid, item_name = pid, price = 1, quantity = 1\<rparr>)
                          [''a'', ''b'', ''c'', ''d'', ''e'', ''f''])\<rparr>]"

text \<open>
  One order with two items of equal revenue; the product id of the first is \<^verbatim>\<open>"2"\<close> and
  that of the second is \<^verbatim>\<open>"1"\<close>.
\<close>

definition tie_order :: "order list" where
  "tie_order =
     [\<lparr>order_id = ''t1'', createdAt = Some (5 * msPerDay), totalAmount = Some 20,
       status = Some ''Pending'',
       products = Some [\<lparr>productId = ''2'', item_name = ''Bag'', price = 5, quantity = 2\<rparr>,
                        \<lparr>productId = ''1'', item_name = ''Hat'', price = 10, quantity = 1\<rparr>]\<rparr>]"

text \<open>
  The price 499.99 as a double, and one order in which the product \<^verbatim>\<open>A\<close> is bought six
  times, one unit each, and then the product \<^verbatim>\<open>B\<close> once, six units.
\<close>

definition price_499_99 :: rat where
  "price_499_99 = 2198979275086889 / 4398046511104"

definition coat_item :: line_item where
  "coat_item = \<lparr>productId = ''A'', item_name = ''Coat'', price = price_499_99, quantity = 1\<rparr>"

definition repeated_item_order :: "order list" where
  "repeated_item_order =
     [\<lparr>order_id = ''r1'', createdAt = Some (5 * msPerDay), totalAmount = Some 6000,
       status = Some ''Pending'',
       products = Some [coat_item, coat_item, coat_item, coat_item, coat_item, coat_item,
                        \<lparr>productId = ''B'', item_name = ''Boots'',
                          price = price_499_99, quantity = 6\<rparr>]\<rparr>]"

text \<open>
  One order with three items at the prices 0.1, 0.2 and 0.3 (as doubles), one unit each;
  the first two products are of the category Pins, the third of the category Patches.
\<close>

definition tenths_order :: "order list" where
  "tenths_order =
     [\<lparr>order_id = ''f1'', createdAt = Some (5 * msPerDay), totalAmount = Some 1,
       status = Some ''Pending'',
       products = Some [\<lparr>productId = ''a'', item_name = ''Pin'',
                          price = 3602879701896397 / 36028797018963968, quantity = 1\<rparr>,
                        \<lparr>productId = ''b'', item_name = ''Badge'',
                          price = 3602879701896397 / 18014398509481984, quantity = 1\<rparr>,
                        \<lparr>productId = ''c'', item_name = ''Patch'',
                          price = 5404319552844595 / 18014398509481984, quantity = 1\<rparr>]\<rparr>]"

definition tenths_products :: "product list" where
  "tenths_products = [\<lparr>product_id = ''a'', categoryId = ''A''\<rparr>,
                      \<lparr>product_id = ''b'', categoryId = ''A''\<rparr>,
                      \<lparr>product_id = ''c'', categoryId = ''B''\<rparr>]"

definition tenths_categories :: "category list" where
  "tenths_categories = [\<lparr>category_id = ''A'', category_name = ''Pins''\<rparr>,
                        \<lparr>category_id = ''B'', category_name = ''Patches''\<rparr>]"

text \<open>
  Scenario D: 20 orders on 20 distinct days, from 15 October to 3 November 2026 (the
  day numbers 20741 to 20760), at different times of day and not in chronological order.
\<close>

definition order_on_day :: "int \<Rightarrow> order" where
  "order_on_day d =
     \<lparr>order_id = ''D'' @ show_nat (nat d),
      createdAt = Some (d * msPerDay + 3600000 * (d mod 24)),
      totalAmount = Some 10, status = Some ''Delivered'', products = None\<rparr>"

definition scenario_D_orders :: "order list" where
  "scenario_D_orders =
     map order_on_day
       [20748, 20741, 20755, 20742, 20749, 20756, 20743, 20750, 20757, 20744,
        20751, 20758, 20745, 20752, 20759, 20746, 20753, 20760, 20747, 20754]"

text \<open>
  Two orders, placed on 2 November 2026 and on 1 December 2026 (the day numbers 20759 and
  20788), seen on 5 December 2026 through a window of 90 days.
\<close>

definition two_month_orders :: "order list" where
  "two_month_orders = [order_on_day 20759, order_on_day 20788]"

definition fifth_of_december :: int where
  "fifth_of_december = 20792 * msPerDay + 43200000"

text \<open>Scenario A: one order of 100 with one line item, two shirts at 50.\<close>

definition scenario_A_orders :: "order list" where
  "scenario_A_orders =
     [\<lparr>order_id = ''a1'', createdAt = Some (20760 * msPerDay), totalAmount = Some 100,
       status = Some ''Pending'',
       products = Some [\<lparr>productId = ''p1'', item_name = ''Shirt'', price = 50, quantity = 2\<rparr>]\<rparr>]"

text \<open>Scenario C: two orders of 50 and 30 on the same calendar day, 3 November 2026.\<close>

definition scenario_C_orders :: "order list" where
  "scenario_C_orders =
     [\<lparr>order_id = ''c1'', createdAt = Some (20760 * msPerDay + 3600000), totalAmount = Some 50,
       status = Some ''Pending'', products = None\<rparr>,
      \<lparr>order_id = ''c2'', createdAt = Some (20760 * msPerDay + 72000000), totalAmount = Some 30,
       status = Some ''Shipped'', products = None\<rparr>]"

section \<open>Theorems\<close>

subsection \<open>Dictionaries and key enumeration\<close>

lemma map_of_obj_set: "map_of (obj_set acc k v) = (map_of acc)(k \<mapsto> v)"
  by (induction acc k v rule: obj_set.induct) auto

lemma keys_obj_set:
  "map fst (obj_set acc k v) = (if k \<in> set (map fst acc) then map fst acc else map fst acc @ [k])"
  by (induction acc k v rule: obj_set.induct) auto

lemma distinct_obj_set: "distinct (map fst acc) \<Longrightarrow> distinct (map fst (obj_set acc k v))"
  by (simp add: keys_obj_set)

lemma sum_obj_set:
  fixes f :: "'v \<Rightarrow> 'm::comm_monoid_add"
  shows "(case map_of acc k of None \<Rightarrow> 0 | Some e \<Rightarrow> f e) + sum_list (map (\<lambda>kv. f (snd kv)) (obj_set acc k v))
         = sum_list (map (\<lambda>kv. f (snd kv)) acc) + f v"
  by (induction acc k v rule: obj_set.induct) (auto simp: ac_simps)

lemma remdups_drop_later:
  "k \<in> set ys \<Longrightarrow> remdups (xs @ k # ys) = remdups (xs @ ys)"
  by (induction xs) auto

lemma first_seen_append_seen:
  "k \<in> set ks \<Longrightarrow> first_seen (ks @ k # rest) = first_seen (ks @ rest)"
  by (simp add: first_seen_def remdups_drop_later)

lemma keys_group_fold:
  "distinct (map fst acc) \<Longrightarrow>
   map fst (foldl (group_step key init upd) acc xs) = first_seen (map fst acc @ map key xs)"
proof (induction xs arbitrary: acc)
  case Nil
  then show ?case by (simp add: first_seen_def distinct_remdups_id)
next
  case (Cons x xs)
  have d: "distinct (map fst (group_step key init upd acc x))"
    using Cons.prems by (simp add: group_step_def distinct_obj_set)
  show ?case
  proof (cases "key x \<in> set (map fst acc)")
    case True
    then show ?thesis
      using Cons.IH [OF d] by (simp add: group_step_def keys_obj_set first_seen_append_seen)
  next
    case False
    then show ?thesis
      using Cons.IH [OF d] by (simp add: group_step_def keys_obj_set)
  qed
qed

lemma distinct_group_fold:
  "distinct (map fst acc) \<Longrightarrow> distinct (map fst (foldl (group_step key init upd) acc xs))"
  by (simp add: keys_group_fold first_seen_def)

lemma map_of_group_step:
  "map_of (group_step key init upd acc x) =
     (map_of acc)(key x \<mapsto> upd (case map_of acc (key x) of None \<Rightarrow> init x | Some e \<Rightarrow> e) x)"
  by (simp add: group_step_def map_of_obj_set)

lemma lookup_group_fold:
  "map_of (foldl (group_step key init upd) acc xs) k =
     (case filter (\<lambda>x. key x = k) xs of
        [] \<Rightarrow> map_of acc k
      | y # ys \<Rightarrow> Some (foldl upd (case map_of acc k of None \<Rightarrow> init y | Some e \<Rightarrow> e) (y # ys)))"
proof (induction xs arbitrary: acc)
  case Nil
  then show ?case by simp
next
  case (Cons x xs)
  show ?case
    by (simp add: Cons.IH map_of_group_step split: list.splits option.splits)
qed

subsection \<open>Totals\<close>


text \<open>
  Claim C6. The average order value is the total revenue divided by the number of orders
  when there is an order, and 0 when there is none; it is always a finite number, so the
  division never meets a zero divisor.
\<close>

theorem averageOrderValue_guarded:
  "averageOrderValue fos =
     Some (if totalOrders fos > 0 then totalRevenue fos / of_nat (totalOrders fos) else 0)"
  by (simp add: averageOrderValue_def divide_number_def)

theorem averageOrderValue_guarded_witness:
  "averageOrderValue scenario_A_orders = Some 100 \<and> averageOrderValue [] = Some 0"
  using averageOrderValue_guarded [of scenario_A_orders] averageOrderValue_guarded [of "[]"]
  by (simp add: scenario_A_orders_def totalOrders_def totalRevenue_def)

subsection \<open>Key enumeration by \<^verbatim>\<open>Object.entries\<close>\<close>

lemma mset_Object_entries: "mset (Object_entries obj) = mset obj"
  by (simp add: Object_entries_def)

lemma set_Object_entries: "set (Object_entries obj) = set obj"
  by (metis mset_Object_entries set_mset_mset)

lemma length_Object_entries: "length (Object_entries obj) = length obj"
  by (metis mset_Object_entries size_mset)

lemma distinct_Object_entries:
  "distinct (map fst obj) \<Longrightarrow> distinct (map fst (Object_entries obj))"
proof -
  assume d: "distinct (map fst obj)"
  have "mset (map fst (Object_entries obj)) = mset (map fst obj)"
    by (simp add: mset_Object_entries)
  then show ?thesis using d by (metis mset_eq_imp_distinct_iff)
qed

lemma map_of_Object_entries:
  "distinct (map fst obj) \<Longrightarrow> map_of (Object_entries obj) = map_of obj"
  by (simp add: map_of_inject_set distinct_Object_entries set_Object_entries)

lemma sum_list_Object_entries:
  fixes f :: "string \<times> 'v \<Rightarrow> 'm::comm_monoid_add"
  shows "sum_list (map f (Object_entries obj)) = sum_list (map f obj)"
proof -
  have "mset (map f (Object_entries obj)) = mset (map f obj)"
    by (simp add: mset_Object_entries)
  then show ?thesis by (metis sum_mset_sum_list)
qed

lemma Object_entries_no_index:
  "\<forall>kv \<in> set obj. \<not> is_array_index (fst kv) \<Longrightarrow> Object_entries obj = obj"
  by (simp add: Object_entries_def filter_empty_conv)

lemma find_key_map_of:
  "find (\<lambda>kv. fst kv = k) xs = map_option (Pair k) (map_of xs k)"
  by (induction xs) auto

lemma insort_key_map:
  "insort_key f (h x) (map h xs) = map h (insort_key (\<lambda>x. f (h x)) x xs)"
  by (induction xs) auto

lemma sort_key_map: "sort_key f (map h xs) = map h (sort_key (\<lambda>x. f (h x)) xs)"
  by (induction xs) (auto simp: insort_key_map)

lemma Object_entries_map_values:
  "Object_entries (map (\<lambda>kv. (fst kv, f (snd kv))) obj)
     = map (\<lambda>kv. (fst kv, f (snd kv))) (Object_entries obj)"
  by (simp add: Object_entries_def filter_map comp_def sort_key_map)

subsection \<open>Dictionaries of numbers\<close>

lemma proto_is_inherited: "is_inherited ''__proto__''"
  by (simp add: is_inherited_def inherited_names_def)

lemma map_of_numbers: "map_of (numbers obj) k = map_option Number (map_of obj k)"
  by (induction obj) (auto simp: numbers_def)

lemma obj_set_numbers: "obj_set (numbers obj) k (Number v) = numbers (obj_set obj k v)"
  by (induction obj k v rule: obj_set.induct) (auto simp: numbers_def)

lemma Object_entries_numbers: "Object_entries (numbers obj) = numbers (Object_entries obj)"
  unfolding numbers_def by (rule Object_entries_map_values)

lemma sum_numbers_Number: "sum_numbers (map Number vs) = Some (sum_list vs)"
  by (induction vs) auto

lemma sum_numbers_numbers: "sum_numbers (map snd (numbers obj)) = Some (sum_list (map snd obj))"
  using sum_numbers_Number [of "map snd obj"] by (simp add: numbers_def comp_def)

text \<open>
  A read-modify-write of a key that is no inherited name, on a dictionary of numbers, is
  the grouping step on the numbers.
\<close>

lemma write_number:
  assumes "\<not> is_inherited k"
  shows "write_property (numbers acc) k (plus_number f (or_zero (read_property (numbers acc) k)))
           = numbers (obj_set acc k (f (case map_of acc k of None \<Rightarrow> 0 | Some e \<Rightarrow> e)))"
proof -
  have k: "k \<noteq> ''__proto__''"
    using assms proto_is_inherited by auto
  show ?thesis
    using assms k
    by (simp add: write_property_def read_property_def map_of_numbers or_zero_def
        plus_number_def obj_set_numbers split: option.splits)
qed

lemma numbers_fold:
  assumes "\<And>acc x. x \<in> set xs \<Longrightarrow> step (numbers acc) x = numbers (gstep acc x)"
  shows "foldl step (numbers acc) xs = numbers (foldl gstep acc xs)"
  using assms by (induction xs arbitrary: acc) auto

subsection \<open>Evaluation of the examples\<close>

lemmas dictionary_defs =
  Object_values_def Object_entries_def is_array_index_def is_digit_def digits_value_def
  Array_sort_def sort_compare_def order_items_def all_items_def item_revenue_def
  lineItemRevenue_def read_property_def write_property_def or_zero_def plus_number_def
  is_inherited_def inherited_names_def num_add_def num_mul_def num_sub_def

lemmas status_defs = ordersByStatus_def statusCount_def statusCount_order_def statusKey_def

subsection \<open>Evaluation of the rounding\<close>

lemma floor_rat_numeral_div: "\<lfloor>numeral a / numeral b :: rat\<rfloor> = numeral a div numeral b"
  using floor_divide_of_int_eq [of "numeral a" "numeral b", where ?'a = rat] by simp

lemma ceiling_rat_numeral_div:
  "\<lceil>numeral a / numeral b :: rat\<rceil> = - (- numeral a div numeral b)"
  using floor_divide_of_int_eq [of "- numeral a" "numeral b", where ?'a = rat]
  by (simp add: ceiling_def)

lemma floor_rat_one_div: "\<lfloor>1 / numeral b :: rat\<rfloor> = 1 div numeral b"
  using floor_divide_of_int_eq [of 1 "numeral b", where ?'a = rat] by simp

lemma ceiling_rat_one_div: "\<lceil>1 / numeral b :: rat\<rceil> = - (- 1 div numeral b)"
  using floor_divide_of_int_eq [of "- 1" "numeral b", where ?'a = rat]
  by (simp add: ceiling_def)

lemmas rounding_defs =
  round_double_def round_positive_def round_at_def binade_def scale2_def round_half_even_def
  bit_length.simps floor_rat_numeral_div ceiling_rat_numeral_div floor_rat_one_div
  ceiling_rat_one_div

text \<open>
  The doubles nearest to 0.1, 0.2 and 499.99, the rounded sum of the first two
  (0.30000000000000004), and the rounding of a whole number.
\<close>

lemma round_double_examples:
  "round_double (1 / 10) = 3602879701896397 / 36028797018963968"
  "round_double (2 / 10) = 3602879701896397 / 18014398509481984"
  "round_double (49999 / 100) = 2198979275086889 / 4398046511104"
  "round_double (3602879701896397 / 36028797018963968 + 3602879701896397 / 18014398509481984)
     = 1351079888211149 / 4503599627370496"
  "round_double 160 = 160"
  by (simp_all add: rounding_defs)



subsection \<open>Orders by status\<close>

lemma foldl_count: "foldl (\<lambda>c _. Suc c) n xs = n + length xs"
  by (induction xs arbitrary: n) auto

lemma find_map_list: "find P (map f xs) = map_option f (find (\<lambda>x. P (f x)) xs)"
  by (induction xs) auto

lemma statusCount_order_numbers:
  "\<not> is_inherited (statusKey ord) \<Longrightarrow>
   statusCount_order (numbers acc) ord
     = numbers (group_step statusKey (\<lambda>_. 0) (\<lambda>c _. Suc c) acc ord)"
  by (simp add: statusCount_order_def group_step_def write_number)

lemma statusCount_numbers:
  assumes "\<forall>ord \<in> set fos. \<not> is_inherited (statusKey ord)"
  shows "statusCount fos = numbers (foldl (group_step statusKey (\<lambda>_. 0) (\<lambda>c _. Suc c)) [] fos)"
proof -
  have "foldl statusCount_order (numbers []) fos
          = numbers (foldl (group_step statusKey (\<lambda>_. 0) (\<lambda>c _. Suc c)) [] fos)"
    using assms by (intro numbers_fold) (simp add: statusCount_order_numbers)
  then show ?thesis by (simp add: statusCount_def numbers_def)
qed

lemma ordersByStatus_numbers:
  assumes "\<forall>ord \<in> set fos. \<not> is_inherited (statusKey ord)"
  shows "ordersByStatus fos =
           map (\<lambda>kv. \<lparr>sc_status = fst kv, sc_count = Number (snd kv)\<rparr>)
             (Object_entries (foldl (group_step statusKey (\<lambda>_. 0) (\<lambda>c _. Suc c)) [] fos))"
  unfolding ordersByStatus_def statusCount_numbers [OF assms] Object_entries_numbers
  by (simp add: numbers_def comp_def)

lemma map_of_status_groups:
  "map_of (foldl (group_step statusKey (\<lambda>_. 0) (\<lambda>c _. Suc c)) [] fos) k =
     (if filter (\<lambda>ord. statusKey ord = k) fos = [] then None
      else Some (length (filter (\<lambda>ord. statusKey ord = k) fos)))"
  by (simp add: lookup_group_fold foldl_count split: list.splits)

lemma sum_status_groups:
  "sum_list (map snd (foldl (group_step statusKey (\<lambda>_. 0) (\<lambda>c _. Suc c)) acc xs))
     = sum_list (map snd acc) + length xs"
proof (induction xs arbitrary: acc)
  case Nil
  then show ?case by simp
next
  case (Cons x xs)
  have "sum_list (map snd (group_step statusKey (\<lambda>_. 0) (\<lambda>c _. Suc c) acc x))
          = Suc (sum_list (map snd acc))"
    using sum_obj_set [where acc = acc and k = "statusKey x" and f = "\<lambda>c. c"
        and v = "Suc (case map_of acc (statusKey x) of None \<Rightarrow> 0 | Some c \<Rightarrow> c)"]
    by (simp add: group_step_def split: option.splits)
  then show ?case by (simp add: Cons.IH)
qed

text \<open>
  What the histogram does for status strings that are no inherited names: the entry of a
  label counts the orders that carry exactly that label, labels are distinct, an order
  without status is counted under \<^verbatim>\<open>"Unknown"\<close> (as is one whose status is the empty
  string), and the counts add up to the number of orders.
\<close>

lemma ordersByStatus_own_labels:
  assumes "\<forall>ord \<in> set fos. \<not> is_inherited (statusKey ord)"
  shows "find (\<lambda>sc. sc_status sc = k) (ordersByStatus fos) =
           (if filter (\<lambda>ord. statusKey ord = k) fos = [] then None
            else Some \<lparr>sc_status = k,
                       sc_count = Number (length (filter (\<lambda>ord. statusKey ord = k) fos))\<rparr>)"
    and "distinct (map sc_status (ordersByStatus fos))"
    and "sum_numbers (map sc_count (ordersByStatus fos)) = Some (totalOrders fos)"
proof -
  let ?G = "foldl (group_step statusKey (\<lambda>_. 0) (\<lambda>c _. Suc c)) [] fos"
  have d: "distinct (map fst ?G)"
    by (simp add: distinct_group_fold)
  have "find (\<lambda>sc. sc_status sc = k) (ordersByStatus fos) =
        map_option (\<lambda>kv. \<lparr>sc_status = fst kv, sc_count = Number (snd kv)\<rparr>)
          (find (\<lambda>kv. fst kv = k) (Object_entries ?G))"
    by (simp add: ordersByStatus_numbers [OF assms] find_map_list)
  also have "\<dots> = map_option (\<lambda>kv. \<lparr>sc_status = fst kv, sc_count = Number (snd kv)\<rparr>)
          (map_option (Pair k) (map_of ?G k))"
    by (simp add: find_key_map_of map_of_Object_entries d)
  finally show "find (\<lambda>sc. sc_status sc = k) (ordersByStatus fos) =
           (if filter (\<lambda>ord. statusKey ord = k) fos = [] then None
            else Some \<lparr>sc_status = k,
                       sc_count = Number (length (filter (\<lambda>ord. statusKey ord = k) fos))\<rparr>)"
    by (simp add: map_of_status_groups)
  have "map sc_status (ordersByStatus fos) = map fst (Object_entries ?G)"
    by (simp add: ordersByStatus_numbers [OF assms])
  then show "distinct (map sc_status (ordersByStatus fos))"
    by (simp add: distinct_Object_entries d)
  have c: "map sc_count (ordersByStatus fos) = map Number (map snd (Object_entries ?G))"
    by (simp add: ordersByStatus_numbers [OF assms])
  have "sum_list (map snd (Object_entries ?G)) = sum_list (map snd ?G)"
    by (rule sum_list_Object_entries)
  then show "sum_numbers (map sc_count (ordersByStatus fos)) = Some (totalOrders fos)"
    unfolding c sum_numbers_Number by (simp add: sum_status_groups totalOrders_def)
qed

lemma statusKey_cases:
  "status ord = None \<Longrightarrow> statusKey ord = ''Unknown''"
  "status ord = Some s \<Longrightarrow> s \<noteq> [] \<Longrightarrow> statusKey ord = s"
  by (simp_all add: statusKey_def)

lemma ordersByStatus_status_orders:
  "ordersByStatus status_orders =
     [\<lparr>sc_status = ''Unknown'', sc_count = Number 1\<rparr>,
      \<lparr>sc_status = ''Pending'', sc_count = Number 1\<rparr>,
      \<lparr>sc_status = ''pending'', sc_count = Number 1\<rparr>]"
  by (simp add: status_defs dictionary_defs status_orders_def order_without_status_def)



subsection \<open>The run and the report\<close>

lemma fetchAnalytics_report:
  "analytics (fetchAnalytics rt now daysAgo s) =
     report rt (products_arr s) (categories_arr s) (filteredOrders rt now daysAgo (orders_arr s))"
  by (simp add: fetchAnalytics_def Let_def report_def filteredOrders_def topProducts_def
      productSales_def revenueByCategory_def categoryRevenue_def salesOverTime_def
      salesByDate_def ordersByStatus_def statusCount_def)

lemma fetchAnalytics_loading: "loading (fetchAnalytics rt now daysAgo s) = False"
  by (simp add: fetchAnalytics_def Let_def)

subsection \<open>Time window filter\<close>

lemmas window_defs =
  filteredOrders_def cutoffDate_def orderDate_def spec_cutoff_def startOfLocalDay_def
  en_US_UTC_def en_US_New_York_def new_york_local_def new_york_utc_def msPerDay_def


text \<open>
  An order without a date counts as placed at the epoch: a window that reaches back
  beyond 1970 retains it.
\<close>

lemma undated_order_in_long_window:
  "filteredOrders en_US_UTC 1793664000000 30000 [undated_order] = [undated_order]"
  by (simp add: window_defs undated_order_def)

text \<open>
  \<^verbatim>\<open>setDate\<close> moves the local calendar date. In New York at noon of 3 November 2026, two days
  after the clocks went back, the cutoff of the window of 7 days is noon of 27 October in
  daylight saving time: one hour before \<open>now\<close> minus 7 times 24 hours, so that the order
  of 12:30 on 27 October is retained.
\<close>

lemma cutoffDate_across_clock_change:
  "cutoffDate en_US_New_York new_york_noon 7 = 1793116800000"
  "new_york_noon - 7 * msPerDay = 1793120400000"
  "filteredOrders en_US_New_York new_york_noon 7 [new_york_order] = [new_york_order]"
  by (simp_all add: window_defs new_york_noon_def new_york_order_def)



subsection \<open>Frame and repeatability of the run\<close>

text \<open>
  Claim C9. A run leaves the three input collections as they were: the orders with their
  line items, the products and the categories. The run writes to the arrays and objects
  it allocates and to the component state only; the two in-place sorts rearrange arrays
  that \<^verbatim>\<open>Object.values\<close> and \<^verbatim>\<open>map\<close> have just allocated.
\<close>

theorem fetchAnalytics_keeps_inputs:
  "orders_arr (fetchAnalytics rt now daysAgo s) = orders_arr s
   \<and> products_arr (fetchAnalytics rt now daysAgo s) = products_arr s
   \<and> categories_arr (fetchAnalytics rt now daysAgo s) = categories_arr s"
  by (simp add: fetchAnalytics_def Let_def)

theorem fetchAnalytics_keeps_inputs_witness:
  "orders_arr (fetchAnalytics en_US_UTC (10 * msPerDay) 30 day_5_store) = orders_arr day_5_store
   \<and> products_arr (fetchAnalytics en_US_UTC (10 * msPerDay) 30 day_5_store) = []
   \<and> categories_arr (fetchAnalytics en_US_UTC (10 * msPerDay) 30 day_5_store) = []"
  using fetchAnalytics_keeps_inputs [of en_US_UTC "10 * msPerDay" 30 day_5_store]
  by (simp add: day_5_store_def initial_store_def)

text \<open>
  The report depends on the clock: the same snapshot and the same window of 30 days give
  one order on day 10 and none on day 40.
\<close>

theorem fetchAnalytics_clock_counterexample:
  "analytics (fetchAnalytics en_US_UTC (10 * msPerDay) 30 day_5_store)
     \<noteq> analytics (fetchAnalytics en_US_UTC (40 * msPerDay) 30 day_5_store)"
proof -
  have a: "an_totalOrders (analytics (fetchAnalytics en_US_UTC (10 * msPerDay) 30 day_5_store)) = 1"
    by (simp add: fetchAnalytics_report report_def totalOrders_def window_defs
        day_5_store_def initial_store_def)
  have b: "an_totalOrders (analytics (fetchAnalytics en_US_UTC (40 * msPerDay) 30 day_5_store)) = 0"
    by (simp add: fetchAnalytics_report report_def totalOrders_def window_defs
        day_5_store_def initial_store_def)
  show ?thesis using a b by auto
qed

text \<open>
  Claim C8, amended. The report is a function of the snapshot, the window, the runtime and
  the instant the run reads from the clock. A second run on the same snapshot with the
  same window yields the same report when its clock reading puts the same orders inside
  the window, in particular when both runs read the same instant; what the first run left
  in the store has no influence.
\<close>

theorem fetchAnalytics_repeatable:
  assumes "\<forall>ord \<in> set (orders_arr s).
             (cutoffDate rt now daysAgo \<le> orderDate ord)
               = (cutoffDate rt now' daysAgo \<le> orderDate ord)"
  shows "analytics (fetchAnalytics rt now' daysAgo (fetchAnalytics rt now daysAgo s))
           = analytics (fetchAnalytics rt now daysAgo s)"
proof -
  have f: "filteredOrders rt now' daysAgo (orders_arr s)
             = filteredOrders rt now daysAgo (orders_arr s)"
    unfolding filteredOrders_def using assms by (intro filter_cong) auto
  have k: "orders_arr (fetchAnalytics rt now daysAgo s) = orders_arr s"
      "products_arr (fetchAnalytics rt now daysAgo s) = products_arr s"
      "categories_arr (fetchAnalytics rt now daysAgo s) = categories_arr s"
    by (simp_all add: fetchAnalytics_def Let_def)
  show ?thesis by (simp add: fetchAnalytics_report k f)
qed

theorem fetchAnalytics_repeatable_witness:
  "analytics (fetchAnalytics en_US_UTC (10 * msPerDay + 3600000) 30
       (fetchAnalytics en_US_UTC (10 * msPerDay) 30 day_5_store))
     = analytics (fetchAnalytics en_US_UTC (10 * msPerDay) 30 day_5_store)"
proof -
  have h: "\<forall>ord \<in> set (orders_arr day_5_store).
             (cutoffDate en_US_UTC (10 * msPerDay) 30 \<le> orderDate ord)
               = (cutoffDate en_US_UTC (10 * msPerDay + 3600000) 30 \<le> orderDate ord)"
    by (simp add: day_5_store_def initial_store_def window_defs)
  show ?thesis using fetchAnalytics_repeatable [OF h] .
qed

subsection \<open>Exact arithmetic\<close>















subsection \<open>Revenue by category\<close>

lemma loops_over_items:
  "foldl (\<lambda>acc ord. foldl f acc (order_items ord)) a fos = foldl f a (all_items fos)"
  by (induction fos arbitrary: a) (simp_all add: all_items_def)














lemma set_first_seen: "set (first_seen xs) = set xs"
  by (simp add: first_seen_def)

lemma distinct_first_seen: "distinct (first_seen xs)"
  by (simp add: first_seen_def)

lemma length_first_seen: "length (first_seen xs) = card (set xs)"
  by (simp add: first_seen_def length_remdups_card_conv)

lemma alist_by_keys:
  "distinct (map fst xs) \<Longrightarrow> \<forall>k \<in> set (map fst xs). map_of xs k = Some (g k) \<Longrightarrow>
   xs = map (\<lambda>k. (k, g k)) (map fst xs)"
proof (induction xs)
  case Nil
  then show ?case by simp
next
  case (Cons kv xs)
  have "\<forall>k \<in> set (map fst xs). map_of xs k = Some (g k)"
  proof
    fix k
    assume k: "k \<in> set (map fst xs)"
    then have "k \<noteq> fst kv"
      using Cons.prems(1) by (auto simp: image_iff)
    moreover have "map_of (kv # xs) k = Some (g k)"
      using Cons.prems(2) k by auto
    ultimately show "map_of xs k = Some (g k)"
      by (cases kv) (simp split: if_splits)
  qed
  then have "xs = map (\<lambda>k. (k, g k)) (map fst xs)"
    using Cons by simp
  moreover have "kv = (fst kv, g (fst kv))"
    using Cons.prems(2) by (cases kv) auto
  ultimately show ?case
    by (metis list.simps(9))
qed


subsection \<open>Sorting and the top products\<close>

lemma mset_insert_sorted: "mset (insert_sorted cmp x ys) = add_mset x (mset ys)"
  by (induction ys) simp_all

lemma mset_Array_sort: "mset (Array_sort cmp xs) = mset xs"
  by (induction xs) (simp_all add: Array_sort_def mset_insert_sorted)

lemma length_Array_sort: "length (Array_sort cmp xs) = length xs"
  by (metis mset_Array_sort size_mset)

lemma set_Array_sort: "set (Array_sort cmp xs) = set xs"
  by (metis mset_Array_sort set_mset_mset)

lemma insert_sorted_by_key:
  "\<forall>y \<in> set ys. (sort_compare cmp x y \<le> 0) = (f x \<le> f y) \<Longrightarrow>
   insert_sorted cmp x ys = insort_key f x ys"
  by (induction ys) simp_all

lemma Array_sort_by_key:
  "\<forall>x \<in> set xs. \<forall>y \<in> set xs. (sort_compare cmp x y \<le> 0) = (f x \<le> f y) \<Longrightarrow>
   Array_sort cmp xs = sort_key f xs"
proof (induction xs)
  case Nil
  then show ?case by (simp add: Array_sort_def)
next
  case (Cons x xs)
  have ih: "Array_sort cmp xs = sort_key f xs"
    using Cons by simp
  have "insert_sorted cmp x (sort_key f xs) = insort_key f x (sort_key f xs)"
    using Cons.prems by (intro insert_sorted_by_key) simp
  then show ?case
    using ih by (simp add: Array_sort_def)
qed

text \<open>
  Where the rounded difference of two revenues has the sign of the difference, the
  comparator orders by revenue, descending, and the sort is the stable sort by that key.
\<close>

lemma Array_sort_by_revenue_desc:
  assumes "differences_keep_sign rt (map ps_revenue xs)"
  shows "Array_sort (by_revenue_desc rt) xs = sort_key (\<lambda>p. - ps_revenue p) xs"
proof (rule Array_sort_by_key, intro ballI)
  fix x y
  assume "x \<in> set xs" and "y \<in> set xs"
  then have "(0 < roundNumber rt (ps_revenue y - ps_revenue x))
               = (0 < ps_revenue y - ps_revenue x)"
    using assms by (simp add: differences_keep_sign_def)
  then show "(sort_compare (by_revenue_desc rt) x y \<le> 0) = (- ps_revenue x \<le> - ps_revenue y)"
    by (auto simp: sort_compare_def by_revenue_desc_def num_sub_def)
qed

lemma Object_entries_of_keys:
  "Object_entries (map (\<lambda>k. (k, g k)) ks) = map (\<lambda>k. (k, g k)) (enumeration_order ks)"
  by (simp add: Object_entries_def enumeration_order_def filter_map comp_def sort_key_map)

lemma productSales_item_group:
  "\<not> is_inherited (productId i) \<Longrightarrow>
   productSales_item rt acc i =
     group_step productId (\<lambda>i. \<lparr>ps_name = item_name i, ps_sales = 0, ps_revenue = 0\<rparr>)
       (add_item rt) acc i"
  by (simp add: productSales_item_def group_step_def split: option.splits)

lemma foldl_same_steps:
  "\<forall>x \<in> set xs. \<forall>acc. f acc x = g acc x \<Longrightarrow> foldl f a xs = foldl g a xs"
  by (induction xs arbitrary: a) simp_all

lemma productSales_group:
  assumes "\<forall>i \<in> set (all_items fos). \<not> is_inherited (productId i)"
  shows "productSales rt fos =
     foldl (group_step productId (\<lambda>i. \<lparr>ps_name = item_name i, ps_sales = 0, ps_revenue = 0\<rparr>)
              (add_item rt))
       [] (all_items fos)"
  unfolding productSales_def loops_over_items
  using assms by (intro foldl_same_steps) (simp add: productSales_item_group)

lemma keys_productSales:
  assumes "\<forall>i \<in> set (all_items fos). \<not> is_inherited (productId i)"
  shows "map fst (productSales rt fos) = first_seen (map productId (all_items fos))"
  by (simp add: productSales_group [OF assms] keys_group_fold)

lemma distinct_productSales:
  assumes "\<forall>i \<in> set (all_items fos). \<not> is_inherited (productId i)"
  shows "distinct (map fst (productSales rt fos))"
  by (simp add: productSales_group [OF assms] distinct_group_fold)

lemma foldl_add_item:
  "foldl (add_item rt) e items
   = e\<lparr>ps_sales := foldl (num_add rt) (ps_sales e) (map quantity items),
        ps_revenue := foldl (num_add rt) (ps_revenue e) (map (rounded_revenue rt) items)\<rparr>"
  by (induction items arbitrary: e) (simp_all add: add_item_def rounded_revenue_def)

lemma map_of_productSales:
  assumes "\<forall>i \<in> set (all_items fos). \<not> is_inherited (productId i)"
  shows "map_of (productSales rt fos) pid =
     (if filter (\<lambda>i. productId i = pid) (all_items fos) = [] then None
      else Some (product_group rt (all_items fos) pid))"
proof -
  have "map_of (productSales rt fos) pid =
     (case filter (\<lambda>i. productId i = pid) (all_items fos) of
        [] \<Rightarrow> None
      | y # ys \<Rightarrow>
          Some (foldl (add_item rt)
                  \<lparr>ps_name = item_name y, ps_sales = 0, ps_revenue = 0\<rparr> (y # ys)))"
    unfolding productSales_group [OF assms] lookup_group_fold by (simp split: list.splits)
  then show ?thesis
    unfolding foldl_add_item
    by (simp add: product_group_def accumulated_def split: list.splits)
qed

lemma productSales_groups:
  assumes "\<forall>i \<in> set (all_items fos). \<not> is_inherited (productId i)"
  shows "productSales rt fos =
     map (\<lambda>pid. (pid, product_group rt (all_items fos) pid))
       (first_seen (map productId (all_items fos)))"
proof -
  have "\<forall>k \<in> set (map fst (productSales rt fos)).
          map_of (productSales rt fos) k = Some (product_group rt (all_items fos) k)"
    by (auto simp: keys_productSales [OF assms] set_first_seen map_of_productSales [OF assms]
        filter_empty_conv)
  from alist_by_keys [OF distinct_productSales [OF assms] this]
  show ?thesis by (simp add: keys_productSales [OF assms])
qed

lemma Object_values_productSales:
  assumes "\<forall>i \<in> set (all_items fos). \<not> is_inherited (productId i)"
  shows "Object_values (productSales rt fos) =
     map (product_group rt (all_items fos))
       (enumeration_order (first_seen (map productId (all_items fos))))"
  unfolding Object_values_def
  by (subst productSales_groups [OF assms]) (simp add: Object_entries_of_keys comp_def)

lemma mset_enumeration_order: "mset (enumeration_order ks) = mset ks"
  by (simp add: enumeration_order_def)

lemma length_enumeration_order: "length (enumeration_order ks) = length ks"
  by (metis mset_enumeration_order size_mset)

lemma set_enumeration_order: "set (enumeration_order ks) = set ks"
  by (metis mset_enumeration_order set_mset_mset)

lemma enumeration_order_no_index:
  "\<forall>k \<in> set ks. \<not> is_array_index k \<Longrightarrow> enumeration_order ks = ks"
  by (simp add: enumeration_order_def filter_empty_conv)

lemma length_topProducts:
  assumes "\<forall>i \<in> set (all_items fos). \<not> is_inherited (productId i)"
  shows "length (topProducts rt fos) = min 5 (card (productId ` set (all_items fos)))"
  by (simp add: topProducts_def length_Array_sort Object_values_productSales [OF assms]
      length_enumeration_order length_first_seen min.commute)

lemma topProducts_explicit:
  assumes "\<forall>i \<in> set (all_items fos). \<not> is_inherited (productId i)"
    and "differences_keep_sign rt (group_revenues rt (all_items fos))"
  shows "topProducts rt fos =
     take 5 (sort_key (\<lambda>p. - ps_revenue p)
       (map (product_group rt (all_items fos))
          (enumeration_order (first_seen (map productId (all_items fos))))))"
proof -
  have "set (map ps_revenue (Object_values (productSales rt fos)))
          = set (group_revenues rt (all_items fos))"
    by (simp add: Object_values_productSales [OF assms(1)] group_revenues_def
        set_enumeration_order image_image)
  then have "differences_keep_sign rt (map ps_revenue (Object_values (productSales rt fos)))"
    using assms(2) unfolding differences_keep_sign_def by simp
  then show ?thesis
    by (simp add: topProducts_def Array_sort_by_revenue_desc
        Object_values_productSales [OF assms(1)])
qed

lemma sorted_by_revenue:
  "sorted_wrt (\<lambda>a b. ps_revenue b \<le> ps_revenue a) (take n (sort_key (\<lambda>p. - ps_revenue p) xs))"
proof -
  have "sorted (map (\<lambda>p. - ps_revenue p) (sort_key (\<lambda>p. - ps_revenue p) xs))"
    by (rule sorted_sort_key)
  then have "sorted_wrt (\<lambda>a b. ps_revenue b \<le> ps_revenue a) (sort_key (\<lambda>p. - ps_revenue p) xs)"
    by (simp add: sorted_map)
  then show ?thesis
    by (rule sorted_wrt_take)
qed

lemma ties_keep_enumeration_order:
  "filter (\<lambda>p. ps_revenue p = r) (sort_key (\<lambda>p. - ps_revenue p) xs)
     = filter (\<lambda>p. ps_revenue p = r) xs"
  using sort_key_stable [of "\<lambda>p. - ps_revenue p" "- r" xs] by simp


subsection \<open>Evaluation of the rankings and of the categories\<close>

lemmas ranking_defs =
  topProducts_def productSales_def productSales_item_def add_item_def by_revenue_desc_def
  product_group_def group_revenues_def accumulated_def rounded_revenue_def first_seen_def
  enumeration_order_def differences_keep_sign_def

lemmas category_defs =
  revenueByCategory_def categoryRevenue_def categoryRevenue_item_def categoryName_of_def
  resolved_category_def

lemmas example_defs =
  scenario_B_orders_def scenario_B_products_def scenario_B_categories_def mixed_orders_def
  mixed_products_def unnamed_categories_def six_products_order_def tie_order_def
  repeated_item_order_def coat_item_def price_499_99_def tenths_order_def tenths_products_def
  tenths_categories_def msPerDay_def en_US_UTC_def whole_amounts_def whole_def

subsection \<open>Revenue by category: the claims\<close>





text \<open>
  Nor do they reconcile where sums are rounded. With the prices 0.1, 0.2 and 0.3 the
  category Pins holds the rounded sum of 0.1 and 0.2, which is 0.30000000000000004, while
  the products hold 0.1, 0.2 and 0.3: the values of the categories and the revenues of
  the products have different sums.
\<close>

lemma reconciliation_rounding_example:
  "revenueByCategory en_US_UTC tenths_products tenths_categories tenths_order =
     [\<lparr>cv_name = ''Pins'', cv_value = Number (1351079888211149 / 4503599627370496)\<rparr>,
      \<lparr>cv_name = ''Patches'', cv_value = Number (5404319552844595 / 18014398509481984)\<rparr>]"
  "map ps_revenue (topProducts en_US_UTC tenths_order) =
     [5404319552844595 / 18014398509481984, 3602879701896397 / 18014398509481984,
      3602879701896397 / 36028797018963968]"
  "(1351079888211149 / 4503599627370496 + 5404319552844595 / 18014398509481984 :: rat)
     \<noteq> 5404319552844595 / 18014398509481984 + 3602879701896397 / 18014398509481984
         + 3602879701896397 / 36028797018963968"
  by (simp_all add: category_defs ranking_defs dictionary_defs example_defs rounding_defs
      del: of_int_floor_cancel)



subsection \<open>Top products: the claim\<close>

text \<open>
  Two products of equal revenue, the one with id \<^verbatim>\<open>"2"\<close> encountered first:
  \<^verbatim>\<open>Object.values\<close> enumerates the key \<^verbatim>\<open>"1"\<close> before \<^verbatim>\<open>"2"\<close>, the stable sort keeps
  that order, and the product encountered second is ranked first.
\<close>

theorem topProducts_tie_counterexample:
  "topProducts en_US_UTC tie_order =
     [\<lparr>ps_name = ''Hat'', ps_sales = 1, ps_revenue = 10\<rparr>,
      \<lparr>ps_name = ''Bag'', ps_sales = 2, ps_revenue = 10\<rparr>]
   \<and> map item_name (all_items tie_order) = [''Bag'', ''Hat'']"
  by (simp add: ranking_defs dictionary_defs example_defs round_double_def)

text \<open>
  Claim C5, amended. Where no product id is a name inherited from \<^verbatim>\<open>Object.prototype\<close>,
  and the rounded difference of two accumulated revenues has the sign of their difference
  (as it has for doubles): \<open>topProducts\<close> has one entry per product id of the line items
  (the name of the id's first item, and its units and its revenue accumulated in the order
  of the line items), at most 5 and exactly as many as there are distinct ids when these
  are fewer; it is sorted descending by accumulated revenue, and entries of equal revenue
  stand in the order in which \<^verbatim>\<open>Object.values\<close> enumerates their ids: ids that are array
  indices first, ascending, then the other ids in the order of their first occurrence.
  When no id is an array index that is the first-encountered order.
\<close>

theorem topProducts_ranking:
  assumes "\<forall>i \<in> set (all_items fos). \<not> is_inherited (productId i)"
    and "differences_keep_sign rt (group_revenues rt (all_items fos))"
  shows "length (topProducts rt fos) = min 5 (card (productId ` set (all_items fos)))
   \<and> sorted_wrt (\<lambda>a b. ps_revenue b \<le> ps_revenue a) (topProducts rt fos)
   \<and> topProducts rt fos =
       take 5 (sort_key (\<lambda>p. - ps_revenue p)
         (map (product_group rt (all_items fos))
            (enumeration_order (first_seen (map productId (all_items fos))))))
   \<and> (\<forall>r. filter (\<lambda>p. ps_revenue p = r)
             (sort_key (\<lambda>p. - ps_revenue p)
                (map (product_group rt (all_items fos))
                   (enumeration_order (first_seen (map productId (all_items fos))))))
           = filter (\<lambda>p. ps_revenue p = r)
               (map (product_group rt (all_items fos))
                  (enumeration_order (first_seen (map productId (all_items fos))))))
   \<and> ((\<forall>i \<in> set (all_items fos). \<not> is_array_index (productId i))
        \<longrightarrow> enumeration_order (first_seen (map productId (all_items fos)))
            = first_seen (map productId (all_items fos)))"
proof -
  have "(\<forall>i \<in> set (all_items fos). \<not> is_array_index (productId i))
        \<longrightarrow> enumeration_order (first_seen (map productId (all_items fos)))
            = first_seen (map productId (all_items fos))"
    by (auto intro!: enumeration_order_no_index simp: set_first_seen)
  moreover have t: "topProducts rt fos =
       take 5 (sort_key (\<lambda>p. - ps_revenue p)
         (map (product_group rt (all_items fos))
            (enumeration_order (first_seen (map productId (all_items fos))))))"
    by (rule topProducts_explicit [OF assms])
  moreover have "sorted_wrt (\<lambda>a b. ps_revenue b \<le> ps_revenue a) (topProducts rt fos)"
    unfolding t by (rule sorted_by_revenue)
  ultimately show ?thesis
    using length_topProducts [OF assms(1), of rt]
    by (simp add: ties_keep_enumeration_order)
qed

theorem topProducts_ranking_witness:
  "length (topProducts en_US_UTC mixed_orders) = 3
   \<and> topProducts en_US_UTC mixed_orders =
       [\<lparr>ps_name = ''Shirt'', ps_sales = 2, ps_revenue = 100\<rparr>,
        \<lparr>ps_name = ''Cap'', ps_sales = 1, ps_revenue = 30\<rparr>,
        \<lparr>ps_name = ''Scarf'', ps_sales = 3, ps_revenue = 30\<rparr>]
   \<and> enumeration_order (first_seen (map productId (all_items mixed_orders)))
       = [''p1'', ''p2'', ''p9'']
   \<and> topProducts en_US_UTC repeated_item_order =
       [\<lparr>ps_name = ''Boots'', ps_sales = 6, ps_revenue = 6596937825260667 / 2199023255552\<rparr>,
        \<lparr>ps_name = ''Coat'', ps_sales = 6, ps_revenue = 3298468912630333 / 1099511627776\<rparr>]"
proof -
  have a: "\<forall>i \<in> set (all_items mixed_orders). \<not> is_inherited (productId i)"
    by (simp add: dictionary_defs example_defs)
  have b: "differences_keep_sign en_US_UTC (group_revenues en_US_UTC (all_items mixed_orders))"
    by (simp add: ranking_defs dictionary_defs example_defs round_double_def)
  have c: "\<forall>i \<in> set (all_items repeated_item_order). \<not> is_inherited (productId i)"
    by (simp add: dictionary_defs example_defs)
  have d: "differences_keep_sign en_US_UTC
             (group_revenues en_US_UTC (all_items repeated_item_order))"
    by (simp add: ranking_defs dictionary_defs example_defs rounding_defs
        del: of_int_floor_cancel)
  have h: "\<forall>i \<in> set (all_items mixed_orders). \<not> is_array_index (productId i)"
    by (simp add: dictionary_defs example_defs)
  have f: "first_seen (map productId (all_items mixed_orders)) = [''p1'', ''p2'', ''p9'']"
    by (simp add: first_seen_def dictionary_defs example_defs)
  have t: "topProducts en_US_UTC mixed_orders =
       [\<lparr>ps_name = ''Shirt'', ps_sales = 2, ps_revenue = 100\<rparr>,
        \<lparr>ps_name = ''Cap'', ps_sales = 1, ps_revenue = 30\<rparr>,
        \<lparr>ps_name = ''Scarf'', ps_sales = 3, ps_revenue = 30\<rparr>]"
    by (simp add: ranking_defs dictionary_defs example_defs round_double_def)
  have u: "topProducts en_US_UTC repeated_item_order =
       [\<lparr>ps_name = ''Boots'', ps_sales = 6, ps_revenue = 6596937825260667 / 2199023255552\<rparr>,
        \<lparr>ps_name = ''Coat'', ps_sales = 6, ps_revenue = 3298468912630333 / 1099511627776\<rparr>]"
    by (simp add: ranking_defs dictionary_defs example_defs rounding_defs
        del: of_int_floor_cancel)
  show ?thesis
    using topProducts_ranking [OF a b] topProducts_ranking [OF c d] h f t u by simp
qed

subsection \<open>Sales over time\<close>

lemma slice_last_map: "map f (slice_last n xs) = slice_last n (map f xs)"
  by (simp add: slice_last_def drop_map)

lemma length_slice_last: "length (slice_last n xs) = min n (length xs)"
  by (simp add: slice_last_def)

lemma length_salesOverTime: "length (salesOverTime rt fos) \<le> 14"
  by (simp add: salesOverTime_def length_slice_last)

lemma salesByDate_order_group:
  "\<not> is_inherited (dateKey rt ord) \<Longrightarrow>
   salesByDate_order rt acc ord =
     group_step (dateKey rt) (\<lambda>_. \<lparr>ds_sales = 0, ds_revenue = 0\<rparr>) (add_order rt) acc ord"
  by (simp add: salesByDate_order_def group_step_def split: option.splits)

lemma keys_salesByDate:
  assumes "\<forall>ord \<in> set fos. \<not> is_inherited (dateKey rt ord)"
  shows "map fst (salesByDate rt fos) = first_seen (map (dateKey rt) fos)"
proof -
  have "salesByDate rt fos =
          foldl (group_step (dateKey rt) (\<lambda>_. \<lparr>ds_sales = 0, ds_revenue = 0\<rparr>) (add_order rt))
            [] fos"
    unfolding salesByDate_def
    using assms by (intro foldl_same_steps) (simp add: salesByDate_order_group)
  then show ?thesis
    by (simp add: keys_group_fold)
qed

lemma dated_after_epoch_cutoff:
  "0 < cutoffDate rt now daysAgo \<Longrightarrow> ord \<in> set (filteredOrders rt now daysAgo orders) \<Longrightarrow>
   createdAt ord \<noteq> None"
  by (auto simp: filteredOrders_def orderDate_def split: option.splits)

lemma read_back_key:
  assumes "date_read_back rt ord"
  shows "dateKey rt ord = toLocaleDateString rt (startOfLocalDay rt (orderDate ord))"
    and "parseDate rt (dateKey rt ord) = Some (startOfLocalDay rt (orderDate ord))"
    and "\<not> is_inherited (dateKey rt ord)"
  using assms by (auto simp: date_read_back_def dateKey_def orderDate_def split: option.splits)

text \<open>
  When the runtime reads the date strings back, the comparator orders the points by the
  start of their local day, and the sorted series lists the days of the orders ascending,
  each once.
\<close>

lemma series_sorted_days:
  assumes rb: "\<forall>ord \<in> set fos. date_read_back rt ord"
  defines "series \<equiv> Array_sort (by_date_asc rt)
          (map (\<lambda>kv. \<lparr>sp_date = fst kv, sp_sales = ds_sales (snd kv),
                       sp_revenue = ds_revenue (snd kv)\<rparr>)
             (Object_entries (salesByDate rt fos)))"
  shows "map (\<lambda>p. parseDate rt (sp_date p)) series = map Some (order_days rt fos)"
    and "map sp_date series = map (toLocaleDateString rt) (order_days rt fos)"
proof -
  define day where "day = (\<lambda>ord. startOfLocalDay rt (orderDate ord))"
  define tv :: "sales_point \<Rightarrow> int" where "tv = (\<lambda>p. case parseDate rt (sp_date p) of None \<Rightarrow> 0 | Some t \<Rightarrow> t)"
  define points where "points =
          map (\<lambda>kv. \<lparr>sp_date = fst kv, sp_sales = ds_sales (snd kv),
                       sp_revenue = ds_revenue (snd kv)\<rparr>)
             (Object_entries (salesByDate rt fos))"
  have own: "\<forall>ord \<in> set fos. \<not> is_inherited (dateKey rt ord)"
    using rb read_back_key(3) by blast
  have dates: "map sp_date points = map fst (Object_entries (salesByDate rt fos))"
    by (simp add: points_def)
  have dist: "distinct (map sp_date points)"
    unfolding dates
    by (simp add: distinct_Object_entries keys_salesByDate [OF own] distinct_first_seen)
  have keys: "set (map sp_date points) = dateKey rt ` set fos"
  proof -
    have "set (map fst (Object_entries (salesByDate rt fos))) = set (map fst (salesByDate rt fos))"
      by (simp add: set_Object_entries)
    then show ?thesis
      unfolding dates by (simp add: keys_salesByDate [OF own] set_first_seen)
  qed
  have pt: "\<exists>ord \<in> set fos. sp_date p = toLocaleDateString rt (day ord)
              \<and> parseDate rt (sp_date p) = Some (day ord)" if "p \<in> set points" for p
  proof -
    from that have "sp_date p \<in> dateKey rt ` set fos"
      using keys by auto
    then obtain ord where o: "ord \<in> set fos" "sp_date p = dateKey rt ord"
      by auto
    then show ?thesis
      using read_back_key(1,2) [of rt ord] rb by (auto simp: day_def)
  qed
  have parsed: "parseDate rt (sp_date p) = Some (tv p)" if "p \<in> set points" for p
    using pt [OF that] by (auto simp: tv_def)
  have str: "sp_date p = toLocaleDateString rt (tv p)" if "p \<in> set points" for p
    using pt [OF that] by (auto simp: tv_def)
  have cmp: "\<forall>x \<in> set points. \<forall>y \<in> set points.
               (sort_compare (by_date_asc rt) x y \<le> 0) = (tv x \<le> tv y)"
    using parsed by (simp add: sort_compare_def by_date_asc_def)
  have sorted_eq: "series = sort_key tv points"
    unfolding series_def points_def [symmetric] by (rule Array_sort_by_key [OF cmp])
  have inj: "inj_on tv (set points)"
  proof (rule inj_onI)
    fix p q
    assume pq: "p \<in> set points" "q \<in> set points" "tv p = tv q"
    then have "sp_date p = sp_date q"
      using str by metis
    moreover have "inj_on sp_date (set points)"
      using dist by (simp add: distinct_map)
    ultimately show "p = q"
      using pq by (auto dest: inj_onD)
  qed
  have dpoints: "distinct points"
    using dist by (simp add: distinct_map)
  have dtv: "distinct (map tv series)"
    unfolding sorted_eq using dpoints inj by (simp add: distinct_map)
  have stv: "sorted (map tv series)"
    unfolding sorted_eq by (rule sorted_sort_key)
  have "set (map tv series) = tv ` set points"
    unfolding sorted_eq by simp
  also have "\<dots> = day ` set fos"
  proof (intro equalityI subsetI)
    fix t
    assume "t \<in> tv ` set points"
    then obtain p where p: "p \<in> set points" "t = tv p" by auto
    from pt [OF p(1)] show "t \<in> day ` set fos"
      using p(2) by (auto simp: tv_def)
  next
    fix t
    assume "t \<in> day ` set fos"
    then obtain ord where o: "ord \<in> set fos" "t = day ord" by auto
    then have "dateKey rt ord \<in> set (map sp_date points)"
      using keys by auto
    then obtain p where p: "p \<in> set points" "sp_date p = dateKey rt ord" by auto
    have "parseDate rt (sp_date p) = Some (day ord)"
      using read_back_key(2) [of rt ord] rb o(1) p(2) by (simp add: day_def)
    then have "tv p = t"
      using o(2) by (simp add: tv_def)
    then show "t \<in> tv ` set points"
      using p(1) by auto
  qed
  finally have settv: "set (map tv series) = day ` set fos" .
  have days: "map tv series = order_days rt fos"
    unfolding order_days_def day_def [symmetric] settv [symmetric]
    using sorted_list_of_set.idem_if_sorted_distinct [OF stv dtv] by simp
  have mem: "set series = set points"
    unfolding sorted_eq by simp
  have "map (\<lambda>p. parseDate rt (sp_date p)) series = map (\<lambda>p. Some (tv p)) series"
    using parsed mem by (intro map_cong) auto
  then show "map (\<lambda>p. parseDate rt (sp_date p)) series = map Some (order_days rt fos)"
    unfolding days [symmetric] by (simp add: comp_def)
  have "map sp_date series = map (\<lambda>p. toLocaleDateString rt (tv p)) series"
    using str mem by (intro map_cong) auto
  then show "map sp_date series = map (toLocaleDateString rt) (order_days rt fos)"
    unfolding days [symmetric] by (simp add: comp_def)
qed

lemma length_order_days:
  "length (order_days rt fos) = card ((\<lambda>ord. startOfLocalDay rt (orderDate ord)) ` set fos)"
  by (simp add: order_days_def)

lemma strictly_ascending_order_days: "sorted_wrt (<) (order_days rt fos)"
  by (simp add: order_days_def)

text \<open>
  What the series is in a runtime that reads its own date strings back, as the locale
  en-US does: for orders that all have a date, the dates of \<open>salesOverTime\<close> are the last
  14 of the local days of the orders, strictly ascending and each once, and all of them
  when there are fewer than 14. The bound of 14 holds in every runtime
  (\<open>length_salesOverTime\<close>), and the window filter passes dated orders only whenever its
  cutoff lies after the epoch start (\<open>dated_after_epoch_cutoff\<close>).
\<close>

lemma salesOverTime_read_back:
  assumes "\<forall>ord \<in> set fos. date_read_back rt ord"
  shows "length (salesOverTime rt fos)
        = min 14 (card ((\<lambda>ord. startOfLocalDay rt (orderDate ord)) ` set fos))"
    and "map (\<lambda>p. parseDate rt (sp_date p)) (salesOverTime rt fos)
        = map Some (slice_last 14 (order_days rt fos))"
    and "map sp_date (salesOverTime rt fos)
        = map (toLocaleDateString rt) (slice_last 14 (order_days rt fos))"
    and "sorted_wrt (<) (slice_last 14 (order_days rt fos))"
proof -
  show a: "map (\<lambda>p. parseDate rt (sp_date p)) (salesOverTime rt fos)
        = map Some (slice_last 14 (order_days rt fos))"
    unfolding salesOverTime_def slice_last_map series_sorted_days(1) [OF assms] ..
  show b: "map sp_date (salesOverTime rt fos)
        = map (toLocaleDateString rt) (slice_last 14 (order_days rt fos))"
    unfolding salesOverTime_def slice_last_map series_sorted_days(2) [OF assms] ..
  have "length (salesOverTime rt fos) = length (map sp_date (salesOverTime rt fos))"
    by simp
  also have "\<dots> = min 14 (length (order_days rt fos))"
    unfolding b by (simp add: length_slice_last)
  finally show "length (salesOverTime rt fos)
        = min 14 (card ((\<lambda>ord. startOfLocalDay rt (orderDate ord)) ` set fos))"
    by (simp add: length_order_days)
  show "sorted_wrt (<) (slice_last 14 (order_days rt fos))"
    unfolding slice_last_def using strictly_ascending_order_days by (rule sorted_wrt_drop)
qed

text \<open>Scenario D in the locale en-US, time zone UTC.\<close>

lemmas calendar_defs =
  en_US_UTC_def en_GB_UTC_def en_US_format_def en_GB_format_def slash_date_parse_def
  civil_from_days_def civil_of_era_def civil_of_year_def civil_of_day_of_year_def
  civil_of_month_def days_from_civil_def days_of_year_def show_nat.simps show_two_digits_def
  read_nat_def is_digit_def digits_value_def msPerDay_def

lemma scenario_D_read_back: "\<forall>ord \<in> set scenario_D_orders. date_read_back en_US_UTC ord"
  by (simp add: scenario_D_orders_def date_read_back_def order_on_day_def startOfLocalDay_def
      is_inherited_def inherited_names_def calendar_defs)

lemma scenario_D_days:
  "order_days en_US_UTC scenario_D_orders =
     [1792022400000, 1792108800000, 1792195200000, 1792281600000, 1792368000000,
      1792454400000, 1792540800000, 1792627200000, 1792713600000, 1792800000000,
      1792886400000, 1792972800000, 1793059200000, 1793145600000, 1793232000000,
      1793318400000, 1793404800000, 1793491200000, 1793577600000, 1793664000000]"
proof -
  have "order_days en_US_UTC scenario_D_orders =
          sort (remdups (map (\<lambda>ord. startOfLocalDay en_US_UTC (orderDate ord)) scenario_D_orders))"
    unfolding order_days_def set_map [symmetric] by (rule sorted_list_of_set_sort_remdups)
  also have "map (\<lambda>ord. startOfLocalDay en_US_UTC (orderDate ord)) scenario_D_orders =
     [1792627200000, 1792022400000, 1793232000000, 1792108800000, 1792713600000,
      1793318400000, 1792195200000, 1792800000000, 1793404800000, 1792281600000,
      1792886400000, 1793491200000, 1792368000000, 1792972800000, 1793577600000,
      1792454400000, 1793059200000, 1793664000000, 1792540800000, 1793145600000]"
    by (simp add: scenario_D_orders_def order_on_day_def startOfLocalDay_def orderDate_def
        en_US_UTC_def msPerDay_def)
  finally show ?thesis by simp
qed

lemma scenario_D_series:
  "length (salesOverTime en_US_UTC scenario_D_orders) = 14"
  "map sp_date (salesOverTime en_US_UTC scenario_D_orders) =
     [''10/21/2026'', ''10/22/2026'', ''10/23/2026'', ''10/24/2026'', ''10/25/2026'',
      ''10/26/2026'', ''10/27/2026'', ''10/28/2026'', ''10/29/2026'', ''10/30/2026'',
      ''10/31/2026'', ''11/1/2026'', ''11/2/2026'', ''11/3/2026'']"
proof -
  have c: "card ((\<lambda>ord. startOfLocalDay en_US_UTC (orderDate ord)) ` set scenario_D_orders) = 20"
    unfolding length_order_days [symmetric] scenario_D_days by simp
  have s: "slice_last 14 (order_days en_US_UTC scenario_D_orders) =
       [1792540800000, 1792627200000, 1792713600000, 1792800000000, 1792886400000,
        1792972800000, 1793059200000, 1793145600000, 1793232000000, 1793318400000,
        1793404800000, 1793491200000, 1793577600000, 1793664000000]"
    unfolding scenario_D_days by (simp add: slice_last_def)
  have f: "map (toLocaleDateString en_US_UTC)
       [1792540800000, 1792627200000, 1792713600000, 1792800000000, 1792886400000,
        1792972800000, 1793059200000, 1793145600000, 1793232000000, 1793318400000,
        1793404800000, 1793491200000, 1793577600000, 1793664000000] =
     [''10/21/2026'', ''10/22/2026'', ''10/23/2026'', ''10/24/2026'', ''10/25/2026'',
      ''10/26/2026'', ''10/27/2026'', ''10/28/2026'', ''10/29/2026'', ''10/30/2026'',
      ''10/31/2026'', ''11/1/2026'', ''11/2/2026'', ''11/3/2026'']"
    by (simp add: calendar_defs)
  show "length (salesOverTime en_US_UTC scenario_D_orders) = 14"
    using salesOverTime_read_back(1) [OF scenario_D_read_back] unfolding c by simp
  show "map sp_date (salesOverTime en_US_UTC scenario_D_orders) =
     [''10/21/2026'', ''10/22/2026'', ''10/23/2026'', ''10/24/2026'', ''10/25/2026'',
      ''10/26/2026'', ''10/27/2026'', ''10/28/2026'', ''10/29/2026'', ''10/30/2026'',
      ''10/31/2026'', ''11/1/2026'', ''11/2/2026'', ''11/3/2026'']"
    using salesOverTime_read_back(3) [OF scenario_D_read_back] unfolding s f .
qed

lemmas series_defs =
  salesOverTime_def salesByDate_def salesByDate_order_def add_order_def dateKey_def
  by_date_asc_def slice_last_def

text \<open>
  Claim C4 on the code. The comparator of line 113 reads the date strings with
  \<^verbatim>\<open>new Date\<close>, which takes a string of three numbers as month/day/year, while line 104
  prints them in the viewer's locale. In a day-first locale (en-GB) the two orders of
  2 November 2026 and 1 December 2026 are inside the window of 90 days, their date strings
  are \<^verbatim>\<open>"02/11/2026"\<close> and \<^verbatim>\<open>"01/12/2026"\<close>, which the comparator reads as 11 February and
  12 January: the series lists 1 December before 2 November.
\<close>

theorem salesOverTime_day_first_locale:
  "filteredOrders en_GB_UTC fifth_of_december 90 two_month_orders = two_month_orders
   \<and> map orderDate two_month_orders = [1793660400000, 1796097600000]
   \<and> map (dateKey en_GB_UTC) two_month_orders = [''02/11/2026'', ''01/12/2026'']
   \<and> salesOverTime en_GB_UTC (filteredOrders en_GB_UTC fifth_of_december 90 two_month_orders) =
       [\<lparr>sp_date = ''01/12/2026'', sp_sales = 1, sp_revenue = 10\<rparr>,
        \<lparr>sp_date = ''02/11/2026'', sp_sales = 1, sp_revenue = 10\<rparr>]"
proof -
  have f: "filteredOrders en_GB_UTC fifth_of_december 90 two_month_orders = two_month_orders"
    by (simp add: filteredOrders_def cutoffDate_def orderDate_def two_month_orders_def
        order_on_day_def fifth_of_december_def en_GB_UTC_def msPerDay_def)
  have d: "map orderDate two_month_orders = [1793660400000, 1796097600000]"
    by (simp add: orderDate_def two_month_orders_def order_on_day_def msPerDay_def)
  have k: "map (dateKey en_GB_UTC) two_month_orders = [''02/11/2026'', ''01/12/2026'']"
    by (simp add: dateKey_def two_month_orders_def order_on_day_def calendar_defs)
  have s: "salesOverTime en_GB_UTC two_month_orders =
       [\<lparr>sp_date = ''01/12/2026'', sp_sales = 1, sp_revenue = 10\<rparr>,
        \<lparr>sp_date = ''02/11/2026'', sp_sales = 1, sp_revenue = 10\<rparr>]"
    by (simp add: series_defs two_month_orders_def order_on_day_def dictionary_defs
        calendar_defs round_double_def)
  show ?thesis
    unfolding f using d k s by simp
qed

subsection \<open>The scenarios A and C\<close>

text \<open>
  Scenario A, run at noon of 3 November 2026 with a window of 30 days and a snapshot whose
  product p1 belongs to the category Shirts.
\<close>

lemma scenario_A_report:
  "analytics (fetchAnalytics en_US_UTC (20760 * msPerDay + 43200000) 30
       (initial_store scenario_A_orders scenario_B_products scenario_B_categories)) =
     \<lparr>an_totalRevenue = 100, an_totalOrders = 1, an_averageOrderValue = Some 100,
      an_topProducts = [\<lparr>ps_name = ''Shirt'', ps_sales = 2, ps_revenue = 100\<rparr>],
      an_revenueByCategory = [\<lparr>cv_name = ''Shirts'', cv_value = Number 100\<rparr>],
      an_salesOverTime = [\<lparr>sp_date = ''11/3/2026'', sp_sales = 1, sp_revenue = 100\<rparr>],
      an_ordersByStatus = [\<lparr>sc_status = ''Pending'', sc_count = Number 1\<rparr>]\<rparr>"
proof -
  have w: "filteredOrders en_US_UTC (20760 * msPerDay + 43200000) 30 scenario_A_orders
             = scenario_A_orders"
    by (simp add: window_defs scenario_A_orders_def)
  have t: "totalRevenue scenario_A_orders = 100" "totalOrders scenario_A_orders = 1"
      "averageOrderValue scenario_A_orders = Some 100"
    by (simp_all add: averageOrderValue_def divide_number_def totalRevenue_def totalOrders_def
        scenario_A_orders_def)
  have p: "topProducts en_US_UTC scenario_A_orders =
             [\<lparr>ps_name = ''Shirt'', ps_sales = 2, ps_revenue = 100\<rparr>]"
    by (simp add: ranking_defs dictionary_defs scenario_A_orders_def en_US_UTC_def
        round_double_def)
  have c: "revenueByCategory en_US_UTC scenario_B_products scenario_B_categories
             scenario_A_orders = [\<lparr>cv_name = ''Shirts'', cv_value = Number 100\<rparr>]"
    by (simp add: category_defs dictionary_defs example_defs scenario_A_orders_def
        round_double_def)
  have s: "salesOverTime en_US_UTC scenario_A_orders =
             [\<lparr>sp_date = ''11/3/2026'', sp_sales = 1, sp_revenue = 100\<rparr>]"
    by (simp add: series_defs scenario_A_orders_def dictionary_defs calendar_defs
        round_double_def)
  have o: "ordersByStatus scenario_A_orders = [\<lparr>sc_status = ''Pending'', sc_count = Number 1\<rparr>]"
    by (simp add: status_defs dictionary_defs scenario_A_orders_def)
  show ?thesis
    unfolding fetchAnalytics_report
    by (simp add: initial_store_def report_def w t p c s o)
qed

lemma scenario_C_one_bucket:
  "salesOverTime en_US_UTC scenario_C_orders =
     [\<lparr>sp_date = ''11/3/2026'', sp_sales = 2, sp_revenue = 80\<rparr>]"
  by (simp add: series_defs scenario_C_orders_def dictionary_defs calendar_defs
      round_double_def)

end
